theory Spec2Isabelle
  imports Complex_Main
begin

section \<open>JavaScript values used by the engines\<close>

text \<open>
  The fields the two engines read are strings, numbers, booleans or small objects, each
  of which may also be \<^verbatim>\<open>undefined\<close> or \<^verbatim>\<open>null\<close> (the GraphQL query of the storefront
  engine types every variant field as a string, a boolean or a nested object). A field of
  payload type \<open>'a\<close> is a value of \<open>'a nullable\<close>. A string is the list of its code units; a
  \<open>char\<close> is a code unit below 256, so the strings here are the JavaScript strings of
  characters up to \<^verbatim>\<open>U+00FF\<close>, and \<open>length\<close> is their \<^verbatim>\<open>length\<close>.
\<close>

datatype 'a nullable = Undefined | Null | Val 'a

datatype error = TypeError | Rejected string

text \<open>\<^verbatim>\<open>ToString\<close>, as a template literal applies it to a string-typed field.\<close>

fun to_string :: "string nullable \<Rightarrow> string" where
  "to_string Undefined = ''undefined''"
| "to_string Null = ''null''"
| "to_string (Val s) = s"

text \<open>Truthiness (\<^verbatim>\<open>ToBoolean\<close>) of a string-typed, a boolean-typed and an object-typed field.\<close>

fun truthy_str :: "string nullable \<Rightarrow> bool" where
  "truthy_str (Val s) = (s \<noteq> [])"
| "truthy_str _ = False"

fun truthy_bool :: "bool nullable \<Rightarrow> bool" where
  "truthy_bool (Val b) = b"
| "truthy_bool _ = False"

fun truthy_obj :: "'a nullable \<Rightarrow> bool" where
  "truthy_obj (Val _) = True"
| "truthy_obj _ = False"

text \<open>
  Loose equality \<^verbatim>\<open>==\<close> between two string-typed fields: \<^verbatim>\<open>undefined\<close> and \<^verbatim>\<open>null\<close>
  equal each other and nothing else; two strings are compared by content.
\<close>

fun eq_str :: "string nullable \<Rightarrow> string nullable \<Rightarrow> bool" where
  "eq_str (Val a) (Val b) = (a = b)"
| "eq_str (Val _) _ = False"
| "eq_str _ (Val _) = False"
| "eq_str _ _ = True"

text \<open>
  Numbers: \<^verbatim>\<open>NaN\<close>, the two infinities and the finite values (a finite double is a
  rational; the two zeros are loosely equal and are one value here). Under \<^verbatim>\<open>==\<close>
  \<^verbatim>\<open>NaN\<close> differs from every number, itself included.
\<close>

datatype jsnum = NaN | PosInf | NegInf | Fin rat

fun eq_num :: "jsnum nullable \<Rightarrow> jsnum nullable \<Rightarrow> bool" where
  "eq_num (Val a) (Val b) = (a \<noteq> NaN \<and> a = b)"
| "eq_num (Val _) _ = False"
| "eq_num _ (Val _) = False"
| "eq_num _ _ = True"

subsection \<open>\<^verbatim>\<open>parseFloat\<close>\<close>

text \<open>
  \<^verbatim>\<open>parseFloat(x)\<close> converts \<open>x\<close> to a string, drops leading white space and reads the
  longest prefix that is a decimal literal (\<^verbatim>\<open>StrDecimalLiteral\<close>); without such a prefix
  the result is \<^verbatim>\<open>NaN\<close>. The value of the literal that was read, rounded to a double, is
  the parameter \<open>numval\<close>. The white space and line terminators of JavaScript among the code
  units below 256 are tab, line feed, vertical tab, form feed, carriage return, space
  and the no-break space \<^verbatim>\<open>U+00A0\<close>.
\<close>

definition is_space :: "char \<Rightarrow> bool" where
  "is_space c =
     (c \<in> set [CHR 0x09, CHR 0x0A, CHR 0x0B, CHR 0x0C, CHR 0x0D, CHR 0x20, CHR 0xA0])"

definition is_digit :: "char \<Rightarrow> bool" where
  "is_digit c = (c \<in> set ''0123456789'')"

definition exponent_part :: "string \<Rightarrow> string" where
  "exponent_part s =
     (case s of
        [] \<Rightarrow> []
      | e # r \<Rightarrow>
          if e = CHR ''e'' \<or> e = CHR ''E'' then
            (let sg = (case r of [] \<Rightarrow> [] | c # _ \<Rightarrow> if c = CHR ''+'' \<or> c = CHR ''-'' then [c] else []);
                 ds = takeWhile is_digit (drop (length sg) r)
             in if ds = [] then [] else e # sg @ ds)
          else [])"

definition unsigned_decimal_prefix :: "string \<Rightarrow> string option" where
  "unsigned_decimal_prefix s =
     (if take 8 s = ''Infinity'' then Some ''Infinity''
      else
        let ip = takeWhile is_digit s; r = drop (length ip) s
        in (case r of
              c # r' \<Rightarrow>
                if c = CHR ''.'' then
                  (let fp = takeWhile is_digit r'
                   in if ip = [] \<and> fp = [] then None
                      else Some (ip @ ''.'' @ fp @ exponent_part (drop (length fp) r')))
                else if ip = [] then None
                else Some (ip @ exponent_part r)
            | [] \<Rightarrow> if ip = [] then None else Some ip))"

definition str_decimal_prefix :: "string \<Rightarrow> string option" where
  "str_decimal_prefix s =
     (case s of
        [] \<Rightarrow> None
      | c # r \<Rightarrow>
          if c = CHR ''+'' \<or> c = CHR ''-'' then map_option (\<lambda>l. c # l) (unsigned_decimal_prefix r)
          else unsigned_decimal_prefix s)"

definition parseFloat :: "(string \<Rightarrow> jsnum) \<Rightarrow> string nullable \<Rightarrow> jsnum" where
  "parseFloat numval x =
     (case str_decimal_prefix (dropWhile is_space (to_string x)) of
        None \<Rightarrow> NaN
      | Some lit \<Rightarrow> numval lit)"

section \<open>The storefront engine: names, descriptions and parsing\<close>

record selected_option =
  ovalue :: "string nullable"

record unit_cost =
  amount :: "string nullable"

record inventory_item =
  unit_cost :: "unit_cost nullable"

text \<open>A parsed product variant, as \<^verbatim>\<open>getProdutVariants\<close> builds it (\<open>vid\<close> is its \<^verbatim>\<open>id\<close>).\<close>

record variant =
  vid :: "string nullable"
  product_id :: "string nullable"
  title :: "string nullable"
  vendor :: "string nullable"
  product_type :: "string nullable"
  sku :: "string nullable"
  barcode :: "string nullable"
  price :: "string nullable"
  selected_options :: "selected_option list"
  inventory_item :: "inventory_item nullable"
  taxable :: "bool nullable"

text \<open>The normalized product that \<^verbatim>\<open>parseProduct\<close> returns and \<^verbatim>\<open>syncProduct\<close> consumes.\<close>

record product =
  name :: "string nullable"
  category :: "string nullable"
  p_sku :: "string nullable"
  description :: "string nullable"
  unit_price :: "jsnum nullable"
  purchase_cost :: "jsnum nullable"
  p_taxable :: "bool nullable"

definition generateProductName ::
  "string nullable \<Rightarrow> string nullable \<Rightarrow> selected_option list \<Rightarrow> string" where
  "generateProductName vndr ttl opts =
     foldl (\<lambda>nm opt.
              if truthy_str (ovalue opt) \<and> \<not> eq_str (ovalue opt) (Val ''Default Title'')
              then nm @ '' '' @ to_string (ovalue opt)
              else nm)
           (to_string vndr @ '' '' @ to_string ttl) opts"

definition generateProductDescription :: "string \<Rightarrow> string nullable \<Rightarrow> string" where
  "generateProductDescription nm bc = nm @ '', barcode: '' @ to_string bc"

text \<open>
  \<^verbatim>\<open>parseProduct\<close>: reading \<^verbatim>\<open>inventory_item.unit_cost\<close> of an absent
  \<^verbatim>\<open>inventory_item\<close> throws a \<^verbatim>\<open>TypeError\<close>.
\<close>

definition parseProduct :: "(string \<Rightarrow> jsnum) \<Rightarrow> variant \<Rightarrow> error + product" where
  "parseProduct numval v =
     (let nm = generateProductName (vendor v) (title v) (selected_options v);
          descr = generateProductDescription nm (barcode v);
          up = (if truthy_str (price v) then Val (parseFloat numval (price v)) else Null)
      in case inventory_item v of
           Val ii \<Rightarrow>
             Inr \<lparr> name = Val nm,
                   category = product_type v,
                   p_sku = sku v,
                   description = Val descr,
                   unit_price = up,
                   purchase_cost =
                     (if truthy_obj (unit_cost ii)
                      then Val (parseFloat numval
                                  (case unit_cost ii of Val uc \<Rightarrow> amount uc | _ \<Rightarrow> Undefined))
                      else Null),
                   p_taxable = taxable v \<rparr>
         | _ \<Rightarrow> Inl TypeError)"

text \<open>
  The name as the specification words it: vendor and title, then every option value that
  is non-empty and not the sentinel, in option order, all joined by single spaces.
\<close>

fun space_join :: "string list \<Rightarrow> string" where
  "space_join [] = []"
| "space_join [s] = s"
| "space_join (s # t # ss) = s @ '' '' @ space_join (t # ss)"

definition kept_option_values :: "selected_option list \<Rightarrow> string list" where
  "kept_option_values opts =
     filter (\<lambda>s. s \<noteq> [] \<and> s \<noteq> ''Default Title'')
       (concat (map (\<lambda>opt. case ovalue opt of Val s \<Rightarrow> [s] | _ \<Rightarrow> []) opts))"

section \<open>The storefront engine: batch validation\<close>

record verror =
  code :: nat
  message :: string

record vresult =
  r_id :: "string nullable"
  r_product_id :: "string nullable"
  r_title :: "string nullable"
  errors :: "verror list"

record validation =
  ok :: bool
  results :: "vresult list"

text \<open>
  The three tables \<^verbatim>\<open>existing_names\<close>, \<^verbatim>\<open>existing_skus\<close> and \<^verbatim>\<open>existing_barcodes\<close> are
  plain objects created by \<^verbatim>\<open>{}\<close>. Reading \<^verbatim>\<open>table[key]\<close> gives the own property when the
  table has one and otherwise what \<^verbatim>\<open>Object.prototype\<close> has under that key: a function (or,
  for \<^verbatim>\<open>__proto__\<close>, the prototype object), which is truthy. A \<open>dict\<close> holds the own
  properties.
\<close>

type_synonym dict = "string \<rightharpoonup> string nullable"

definition object_prototype_keys :: "string list" where
  "object_prototype_keys =
     [''constructor'', ''__defineGetter__'', ''__defineSetter__'', ''hasOwnProperty'',
      ''__lookupGetter__'', ''__lookupSetter__'', ''isPrototypeOf'', ''propertyIsEnumerable'',
      ''toString'', ''valueOf'', ''__proto__'', ''toLocaleString'']"

datatype slot = Own "string nullable" | Inherited string | Absent

definition get_prop :: "dict \<Rightarrow> string \<Rightarrow> slot" where
  "get_prop d k =
     (case d k of
        Some v \<Rightarrow> Own v
      | None \<Rightarrow> if k \<in> set object_prototype_keys then Inherited k else Absent)"

fun truthy_slot :: "slot \<Rightarrow> bool" where
  "truthy_slot (Own v) = truthy_str v"
| "truthy_slot (Inherited _) = True"
| "truthy_slot Absent = False"

text \<open>The text a template literal prints for a table entry (for an inherited one, as Node prints it).\<close>

fun slot_text :: "slot \<Rightarrow> string" where
  "slot_text (Own v) = to_string v"
| "slot_text (Inherited k) =
     (if k = ''__proto__'' then ''[object Object]''
      else ''function '' @ (if k = ''constructor'' then ''Object'' else k) @ ''() { [native code] }'')"
| "slot_text Absent = ''undefined''"

text \<open>
  The state of the \<^verbatim>\<open>forEach\<close> loop: the three tables and the results so far. An
  assignment \<^verbatim>\<open>table[key] = id\<close> is only reached when \<^verbatim>\<open>table[key]\<close> is falsy, hence
  never for an inherited key, and adds an own property.
\<close>

record tables =
  existing_names :: dict
  existing_skus :: dict
  existing_barcodes :: dict
  acc_results :: "vresult list"

text \<open>The test \<^verbatim>\<open>!x || x == ""\<close> of a field.\<close>

definition empty_field :: "string nullable \<Rightarrow> bool" where
  "empty_field x = (\<not> truthy_str x \<or> eq_str x (Val []))"

definition price_errors :: "variant \<Rightarrow> verror list" where
  "price_errors v =
     (if empty_field (price v)
      then [\<lparr>code = 100, message = ''invalid price: price can't be empty''\<rparr>] else [])"

definition cost_missing :: "inventory_item nullable \<Rightarrow> bool" where
  "cost_missing ii =
     (case ii of
        Val i \<Rightarrow>
          (case unit_cost i of
             Val uc \<Rightarrow> empty_field (amount uc)
           | _ \<Rightarrow> True)
      | _ \<Rightarrow> True)"

definition cost_errors :: "variant \<Rightarrow> verror list" where
  "cost_errors v =
     (if cost_missing (inventory_item v)
      then [\<lparr>code = 101, message = ''invalid cost: cost can't be empty''\<rparr>] else [])"

definition name_check :: "variant \<Rightarrow> dict \<Rightarrow> verror list \<times> dict" where
  "name_check v names =
     (if empty_field (vendor v) \<or> empty_field (title v) then
        ((if empty_field (vendor v)
          then [\<lparr>code = 102, message = ''invalid vendor: vendor can't be empty''\<rparr>] else []) @
         (if empty_field (title v)
          then [\<lparr>code = 103, message = ''invalid title: title can't be empty''\<rparr>] else []),
         names)
      else
        let nm = generateProductName (vendor v) (title v) (selected_options v) in
        if take 1 nm = ''_'' \<or> length nm > 100 then
          ((if take 1 nm = ''_''
            then [\<lparr>code = 104, message = ''invalid name: name can't start with \"_\"''\<rparr>] else []) @
           (if length nm > 100
            then [\<lparr>code = 105,
                   message = ''invalid name: name can't have more than 100 characters''\<rparr>]
            else []),
           names)
        else if truthy_slot (get_prop names nm) then
          ([\<lparr>code = 106,
             message = ''duplicate name: '' @ nm @
               ''; the name is already in use by product variant with id: '' @
               slot_text (get_prop names nm)\<rparr>],
           names)
        else ([], names(nm \<mapsto> vid v)))"

definition sku_check :: "variant \<Rightarrow> dict \<Rightarrow> verror list \<times> dict" where
  "sku_check v skus =
     (if empty_field (sku v) then
        ([\<lparr>code = 107, message = ''invalid sku: sku can't be empty''\<rparr>], skus)
      else if truthy_slot (get_prop skus (to_string (sku v))) then
        ([\<lparr>code = 108,
           message = ''duplicate sku: '' @ to_string (sku v) @
             ''; the sku is already in use by product variant with id: '' @
             slot_text (get_prop skus (to_string (sku v)))\<rparr>],
         skus)
      else ([], skus(to_string (sku v) \<mapsto> vid v)))"

definition barcode_check :: "variant \<Rightarrow> dict \<Rightarrow> verror list \<times> dict" where
  "barcode_check v barcodes =
     (if empty_field (barcode v) then
        ([\<lparr>code = 109, message = ''invalid barcode: barcode can't be empty''\<rparr>], barcodes)
      else if truthy_slot (get_prop barcodes (to_string (barcode v))) then
        ([\<lparr>code = 110,
           message = ''duplicate barcode: '' @ to_string (barcode v) @
             ''; the barcode is already in use by product variant with id: '' @
             slot_text (get_prop barcodes (to_string (barcode v)))\<rparr>],
         barcodes)
      else ([], barcodes(to_string (barcode v) \<mapsto> vid v)))"

text \<open>The body of the \<^verbatim>\<open>forEach\<close> callback: one variant against the tables.\<close>

definition validate_variant :: "tables \<Rightarrow> variant \<Rightarrow> tables" where
  "validate_variant st v =
     (let nc = name_check v (existing_names st);
          sc = sku_check v (existing_skus st);
          bc = barcode_check v (existing_barcodes st)
      in \<lparr> existing_names = snd nc,
            existing_skus = snd sc,
            existing_barcodes = snd bc,
            acc_results = acc_results st @
              [\<lparr> r_id = vid v, r_product_id = product_id v, r_title = title v,
                  errors = price_errors v @ cost_errors v @ fst nc @ fst sc @ fst bc \<rparr>] \<rparr>)"

text \<open>The final loop: \<^verbatim>\<open>ok\<close> turns false at the first result that carries an error.\<close>

fun all_passed :: "vresult list \<Rightarrow> bool" where
  "all_passed [] = True"
| "all_passed (r # rs) = (if length (errors r) > 0 then False else all_passed rs)"

definition empty_tables :: tables where
  "empty_tables =
     \<lparr> existing_names = Map.empty, existing_skus = Map.empty,
       existing_barcodes = Map.empty, acc_results = [] \<rparr>"

definition validateProductVariants :: "variant list \<Rightarrow> validation" where
  "validateProductVariants variants =
     (let st = foldl validate_variant empty_tables variants
      in \<lparr> ok = all_passed (acc_results st), results = acc_results st \<rparr>)"

text \<open>
  The key a variant brings to each table when its check reaches the table, the effect of
  one check on its table, and the duplicate error that names the first carrier of a key.
\<close>

definition name_key :: "variant \<Rightarrow> string option" where
  "name_key v =
     (if empty_field (vendor v) \<or> empty_field (title v) then None
      else let nm = generateProductName (vendor v) (title v) (selected_options v)
           in if take 1 nm = ''_'' \<or> length nm > 100 then None else Some nm)"

definition sku_key :: "variant \<Rightarrow> string option" where
  "sku_key v = (if empty_field (sku v) then None else Some (to_string (sku v)))"

definition barcode_key :: "variant \<Rightarrow> string option" where
  "barcode_key v = (if empty_field (barcode v) then None else Some (to_string (barcode v)))"

definition table_step :: "(variant \<Rightarrow> string option) \<Rightarrow> dict \<Rightarrow> variant \<Rightarrow> dict" where
  "table_step key d v =
     (case key v of
        None \<Rightarrow> d
      | Some k \<Rightarrow> if truthy_slot (get_prop d k) then d else d(k \<mapsto> vid v))"

definition duplicate_error :: "nat \<Rightarrow> string \<Rightarrow> string \<Rightarrow> variant \<Rightarrow> verror" where
  "duplicate_error c what k first =
     \<lparr>code = c,
      message = ''duplicate '' @ what @ '': '' @ k @ ''; the '' @ what @
        '' is already in use by product variant with id: '' @ to_string (vid first)\<rparr>"

text \<open>The codes of a result, and the two exclusions between groups of codes.\<close>

definition codes :: "vresult \<Rightarrow> nat set" where
  "codes r = set (map code (errors r))"

definition exclusive_groups :: "nat set \<Rightarrow> bool" where
  "exclusive_groups cs =
     ((cs \<inter> {102, 103} = {} \<or> cs \<inter> {104, 105, 106} = {}) \<and>
      (cs \<inter> {104, 105} = {} \<or> 106 \<notin> cs))"

text \<open>A well-formed variant whose SKU is the name of a property of \<^verbatim>\<open>Object.prototype\<close>.\<close>

definition constructor_variant :: variant where
  "constructor_variant =
     \<lparr> vid = Val ''gid://shopify/ProductVariant/1'', product_id = Val ''gid://shopify/Product/1'',
       title = Val ''Salsa'', vendor = Val ''Acme'', product_type = Val ''Food'',
       sku = Val ''constructor'', barcode = Val ''0001'', price = Val ''9.99'',
       selected_options = [\<lparr>ovalue = Val ''Default Title''\<rparr>],
       inventory_item = Val \<lparr>unit_cost = Val \<lparr>amount = Val ''4.50''\<rparr>\<rparr>,
       taxable = Val True \<rparr>"

text \<open>
  A batch with a variant without vendor, two variants whose name starts with \<^verbatim>\<open>_\<close> and two
  variants with the same name of 107 characters.
\<close>

definition malformed_batch :: "variant list" where
  "malformed_batch =
     [constructor_variant\<lparr>vendor := Null\<rparr>,
      constructor_variant\<lparr>vendor := Val ''_Acme'', sku := Val ''S1'', barcode := Val ''0002''\<rparr>,
      constructor_variant\<lparr>vendor := Val ''_Acme'', sku := Val ''S2'', barcode := Val ''0003''\<rparr>,
      constructor_variant\<lparr>vendor := Val (replicate 101 CHR ''A''), sku := Val ''S3'',
                           barcode := Val ''0004''\<rparr>,
      constructor_variant\<lparr>vendor := Val (replicate 101 CHR ''A''), sku := Val ''S4'',
                           barcode := Val ''0005''\<rparr>]"

section \<open>The storefront engine: collecting all pages\<close>

text \<open>
  A page as \<^verbatim>\<open>getProdutVariants\<close> returns it: \<^verbatim>\<open>items\<close> is an array, or \<^verbatim>\<open>null\<close> when the
  response carried no variants; \<^verbatim>\<open>next_cursor\<close> is a string or \<^verbatim>\<open>null\<close>.
\<close>

record 'a page =
  items :: "'a list nullable"
  next_cursor :: "string nullable"

text \<open>
  \<^verbatim>\<open>product_variants.concat(items)\<close> appends the elements of an array, and appends the value
  itself when it is not an array.
\<close>

definition js_concat :: "'a nullable list \<Rightarrow> 'a list nullable \<Rightarrow> 'a nullable list" where
  "js_concat acc its =
     (case its of
        Val xs \<Rightarrow> acc @ map Val xs
      | Null \<Rightarrow> acc @ [Null]
      | Undefined \<Rightarrow> acc @ [Undefined])"

text \<open>
  The loop of \<^verbatim>\<open>getAllProductVariants\<close>. The page fetch is a capability over the state
  \<open>'w\<close> of the remote side; \<open>calls\<close> records the cursor of every invocation. The loop runs
  as long as pages name a next cursor, so it need not return: not returning is \<open>None\<close>.
\<close>

partial_function (option) retrieving ::
  "(string nullable \<Rightarrow> 'w \<Rightarrow> (error + 'a page) \<times> 'w) \<Rightarrow> 'a nullable list \<Rightarrow> string nullable \<Rightarrow>
   string nullable list \<Rightarrow> 'w \<Rightarrow> ((error + 'a nullable list) \<times> string nullable list \<times> 'w) option"
where
  "retrieving getProdutVariants product_variants current_cursor calls w =
     (case getProdutVariants current_cursor w of
        (Inl e, w') \<Rightarrow> Some (Inl e, calls @ [current_cursor], w')
      | (Inr pg, w') \<Rightarrow>
          if truthy_str (next_cursor pg)
          then retrieving getProdutVariants (js_concat product_variants (items pg))
                 (next_cursor pg) (calls @ [current_cursor]) w'
          else Some (Inr (js_concat product_variants (items pg)), calls @ [current_cursor], w'))"

definition getAllProductVariants ::
  "(string nullable \<Rightarrow> 'w \<Rightarrow> (error + 'a page) \<times> 'w) \<Rightarrow> 'w \<Rightarrow>
   ((error + 'a nullable list) \<times> string nullable list \<times> 'w) option" where
  "getAllProductVariants getProdutVariants w = retrieving getProdutVariants [] Null [] w"

text \<open>
  \<open>serves g c w ps fin\<close>: asked for cursor \<open>c\<close> in state \<open>w\<close>, and then for each next
  cursor in turn, the capability \<open>g\<close> answers with the pages \<open>ps\<close>, every page but the last
  naming a next cursor; with \<open>fin = Some e\<close> the call after the pages \<open>ps\<close> fails with \<open>e\<close>,
  with \<open>fin = None\<close> the last page of \<open>ps\<close> names no further cursor.
\<close>

fun serves ::
  "(string nullable \<Rightarrow> 'w \<Rightarrow> (error + 'a page) \<times> 'w) \<Rightarrow> string nullable \<Rightarrow> 'w \<Rightarrow>
   'a page list \<Rightarrow> error option \<Rightarrow> bool" where
  "serves g c w [] fin = (case fin of None \<Rightarrow> False | Some e \<Rightarrow> fst (g c w) = Inl e)"
| "serves g c w (p # ps) fin =
     (fst (g c w) = Inr p \<and>
      (if truthy_str (next_cursor p) then serves g (next_cursor p) (snd (g c w)) ps fin
       else ps = [] \<and> fin = None))"

text \<open>What a page adds to the collection: its items, or the one value that is not an array.\<close>

definition page_elements :: "'a page \<Rightarrow> 'a nullable list" where
  "page_elements p = js_concat [] (items p)"

text \<open>A capability with three pages (cursors \<^verbatim>\<open>c1\<close>, \<^verbatim>\<open>c2\<close>, then none) that counts its calls.\<close>

definition three_pages :: "string nullable \<Rightarrow> nat \<Rightarrow> (error + nat page) \<times> nat" where
  "three_pages c n =
     (if c = Null then (Inr \<lparr>items = Val [1, 2], next_cursor = Val ''c1''\<rparr>, Suc n)
      else if c = Val ''c1'' then (Inr \<lparr>items = Val [3], next_cursor = Val ''c2''\<rparr>, Suc n)
      else if c = Val ''c2'' then (Inr \<lparr>items = Val [4, 5], next_cursor = Null\<rparr>, Suc n)
      else (Inl (Rejected ''unknown cursor''), Suc n))"

section \<open>The accounting engine\<close>

text \<open>
  A reference \<^verbatim>\<open>{ value, name }\<close>, the two properties \<^verbatim>\<open>syncProduct\<close> reads of a category,
  and the two properties \<^verbatim>\<open>resolveAccountRefs\<close> reads of an account.
\<close>

record ref =
  ref_value :: "string nullable"
  ref_name :: "string nullable"

record qb_category =
  cat_value :: "string nullable"
  cat_name :: "string nullable"

record account =
  acct_Id :: "string nullable"
  acct_Name :: "string nullable"

text \<open>
  \<^verbatim>\<open>latest_product\<close>, the target record of \<^verbatim>\<open>syncProduct\<close>, has nine properties. An
  accounting item has these and more: the ones written on creation, its id, and whatever
  else the accounting store keeps (\<open>Other\<close>, as names and values).
\<close>

record latest_product =
  Name :: "string nullable"
  Sku :: "string nullable"
  Description :: "string nullable"
  PurchaseDesc :: "string nullable"
  UnitPrice :: "jsnum nullable"
  PurchaseCost :: "jsnum nullable"
  Taxable :: "bool nullable"
  SubItem :: "bool nullable"
  ParentRef :: "ref nullable"

record item = latest_product +
  Item_Id :: "string nullable"
  Active :: "bool nullable"
  TrackQtyOnHand :: "bool nullable"
  QtyOnHand :: "jsnum nullable"
  InvStartDate :: "string nullable"
  IncomeAccountRef :: "ref nullable"
  ExpenseAccountRef :: "ref nullable"
  AssetAccountRef :: "ref nullable"
  Other :: "(string \<times> string) list"

text \<open>
  The argument of \<^verbatim>\<open>updateProduct\<close>: an item together with the request flag \<^verbatim>\<open>sparse\<close>,
  which both updates of \<^verbatim>\<open>syncProduct\<close> set to \<^verbatim>\<open>false\<close>.
\<close>

record update_request =
  entity :: item
  sparse :: bool

record account_refs =
  income_account_ref :: "ref nullable"
  expense_account_ref :: "ref nullable"
  asset_account_ref :: "ref nullable"

text \<open>
  The transport methods of the engine, each one call of the remote client, are the
  capabilities of \<^verbatim>\<open>syncProduct\<close>; \<open>toISOString\<close> is the reading of the clock,
  \<^verbatim>\<open>new Date().toISOString()\<close>. Within one run of \<^verbatim>\<open>syncProduct\<close> no capability is called
  twice with the same argument (the two updates differ in \<^verbatim>\<open>Active\<close>), so the answers of
  the remote side during one run are functions of the arguments. The three account
  lookups of \<^verbatim>\<open>resolveAccountRefs\<close> run at the same time; when more than one of them is
  rejected, \<open>first_rejection\<close> tells which of the rejections (given in call order) happens
  first in time.
\<close>

record capabilities =
  findCategoryByName :: "string nullable \<Rightarrow> error + qb_category nullable"
  createCategory :: "string nullable \<Rightarrow> error + qb_category nullable"
  findProductByName :: "string nullable \<Rightarrow> error + item nullable"
  findProductBySKU :: "string nullable \<Rightarrow> error + item nullable"
  createProduct :: "item \<Rightarrow> error + item nullable"
  updateProduct :: "update_request \<Rightarrow> error + item nullable"
  findAccountByName :: "string \<Rightarrow> error + account nullable"
  first_rejection :: "error list \<Rightarrow> error"
  toISOString :: string

datatype call =
    FindCategoryByName "string nullable"
  | CreateCategory "string nullable"
  | FindProductByName "string nullable"
  | FindProductBySKU "string nullable"
  | UpdateProduct update_request
  | FindAccountByName string
  | CreateProduct item

text \<open>
  An asynchronous computation: its outcome (rejected with an error, or resolved with a
  value) and the capability calls it made, in order. \<open>await m f\<close> is
  \<^verbatim>\<open>const x = await m; f(x)\<close>: a rejection of \<open>m\<close> is the outcome and \<open>f\<close> does not run.
\<close>

type_synonym 'a promise = "(error + 'a) \<times> call list"

definition invoke :: "call \<Rightarrow> error + 'a \<Rightarrow> 'a promise" where
  "invoke c r = (r, [c])"

definition resolved :: "'a \<Rightarrow> 'a promise" where
  "resolved a = (Inr a, [])"

definition rejected :: "error \<Rightarrow> 'a promise" where
  "rejected e = (Inl e, [])"

definition await :: "'a promise \<Rightarrow> ('a \<Rightarrow> 'b promise) \<Rightarrow> 'b promise" where
  "await m f =
     (case m of
        (Inl e, t) \<Rightarrow> (Inl e, t)
      | (Inr a, t) \<Rightarrow> (case f a of (r, t') \<Rightarrow> (r, t @ t')))"

text \<open>
  \<^verbatim>\<open>Promise.all\<close> over calls that were all started: every call is made. The outcome is
  the list of the values when all of them resolve, and otherwise the rejection that
  happens first in time: \<open>first\<close> picks it among the rejections, which are given in call
  order (a pick outside the list counts as the first of the list).
\<close>

definition rejections :: "'a promise list \<Rightarrow> error list" where
  "rejections ps = concat (map (\<lambda>p. case fst p of Inl e \<Rightarrow> [e] | Inr _ \<Rightarrow> []) ps)"

definition fulfilments :: "'a promise list \<Rightarrow> 'a list" where
  "fulfilments ps = concat (map (\<lambda>p. case fst p of Inl _ \<Rightarrow> [] | Inr a \<Rightarrow> [a]) ps)"

definition promise_all :: "(error list \<Rightarrow> error) \<Rightarrow> 'a promise list \<Rightarrow> 'a list promise" where
  "promise_all first ps =
     ((case rejections ps of
         [] \<Rightarrow> Inr (fulfilments ps)
       | e # es \<Rightarrow> Inl (if first (e # es) \<in> set (e # es) then first (e # es) else e)),
      concat (map snd ps))"

definition findOrCreateCategoryByName ::
  "capabilities \<Rightarrow> string nullable \<Rightarrow> qb_category nullable promise" where
  "findOrCreateCategoryByName env nm =
     await (invoke (FindCategoryByName nm) (findCategoryByName env nm))
       (\<lambda>cat. if \<not> truthy_obj cat
              then invoke (CreateCategory nm) (createCategory env nm)
              else resolved cat)"

text \<open>
  The callback of \<^verbatim>\<open>results.reduce\<close> in \<^verbatim>\<open>resolveAccountRefs\<close> for an account \<open>r\<close>: three
  tests of \<^verbatim>\<open>r.Name\<close> in a row. For a result that is \<^verbatim>\<open>null\<close>, reading \<^verbatim>\<open>r.Name\<close> throws.
\<close>

definition add_account_ref :: "account_refs \<Rightarrow> account \<Rightarrow> account_refs" where
  "add_account_ref accounts r =
     (let a1 = (if eq_str (acct_Name r) (Val ''Sales of Product Income'')
                then accounts\<lparr>income_account_ref := Val \<lparr>ref_value = acct_Id r, ref_name = acct_Name r\<rparr>\<rparr>
                else accounts);
          a2 = (if eq_str (acct_Name r) (Val ''Cost of Goods Sold'')
                then a1\<lparr>expense_account_ref := Val \<lparr>ref_value = acct_Id r, ref_name = acct_Name r\<rparr>\<rparr>
                else a1)
      in if eq_str (acct_Name r) (Val ''Inventory Asset'')
         then a2\<lparr>asset_account_ref := Val \<lparr>ref_value = acct_Id r, ref_name = acct_Name r\<rparr>\<rparr>
         else a2)"

fun reduce_accounts :: "account_refs \<Rightarrow> account nullable list \<Rightarrow> error + account_refs" where
  "reduce_accounts accounts [] = Inr accounts"
| "reduce_accounts accounts (Val r # rs) = reduce_accounts (add_account_ref accounts r) rs"
| "reduce_accounts accounts (_ # rs) = Inl TypeError"

definition resolveAccountRefs :: "capabilities \<Rightarrow> account_refs promise" where
  "resolveAccountRefs env =
     await (promise_all (first_rejection env)
              [invoke (FindAccountByName ''Sales of Product Income'')
                 (findAccountByName env ''Sales of Product Income''),
               invoke (FindAccountByName ''Cost of Goods Sold'')
                 (findAccountByName env ''Cost of Goods Sold''),
               invoke (FindAccountByName ''Inventory Asset'')
                 (findAccountByName env ''Inventory Asset'')])
       (\<lambda>results.
          case reduce_accounts
                 \<lparr>income_account_ref = Undefined, expense_account_ref = Undefined,
                  asset_account_ref = Undefined\<rparr> results of
            Inl e \<Rightarrow> rejected e
          | Inr refs \<Rightarrow> resolved refs)"

text \<open>\<^verbatim>\<open>x.value\<close> of a parent reference, read only behind a test that \<open>x\<close> is truthy.\<close>

definition value_of :: "ref nullable \<Rightarrow> string nullable" where
  "value_of x = (case x of Val r \<Rightarrow> ref_value r | _ \<Rightarrow> Undefined)"

definition didChangeProductContent :: "item \<Rightarrow> latest_product \<Rightarrow> bool" where
  "didChangeProductContent existing_product latest =
     (\<not> (((\<not> truthy_obj (ParentRef existing_product) \<and> \<not> truthy_obj (ParentRef latest)) \<or>
           (truthy_obj (ParentRef existing_product) \<and> truthy_obj (ParentRef latest) \<and>
            eq_str (value_of (ParentRef existing_product)) (value_of (ParentRef latest)))) \<and>
          eq_str (Name existing_product) (Name latest) \<and>
          eq_str (Sku existing_product) (Sku latest) \<and>
          eq_str (Description existing_product) (Description latest) \<and>
          eq_num (UnitPrice existing_product) (UnitPrice latest) \<and>
          eq_num (PurchaseCost existing_product) (PurchaseCost latest)))"

text \<open>The first statement of \<^verbatim>\<open>syncProduct\<close>: the category, found or created, or \<^verbatim>\<open>null\<close>.\<close>

definition latest_category_of :: "capabilities \<Rightarrow> product \<Rightarrow> qb_category nullable promise" where
  "latest_category_of env p =
     (if truthy_str (category p) then findOrCreateCategoryByName env (category p)
      else resolved Null)"

definition latest_product_of :: "product \<Rightarrow> qb_category nullable \<Rightarrow> latest_product" where
  "latest_product_of p latest_category =
     \<lparr> Name = name p,
       Sku = p_sku p,
       Description = description p,
       PurchaseDesc = description p,
       UnitPrice = unit_price p,
       PurchaseCost = purchase_cost p,
       Taxable = p_taxable p,
       SubItem = Val (truthy_obj latest_category),
       ParentRef = (case latest_category of
                      Val c \<Rightarrow> Val \<lparr>ref_value = cat_value c, ref_name = cat_name c\<rparr>
                    | _ \<Rightarrow> Null) \<rparr>"

text \<open>The three payloads: the deactivation of a stale item, the update of the existing item, the new item.\<close>

definition deactivation :: "item \<Rightarrow> update_request" where
  "deactivation same_name_product =
     \<lparr> entity = same_name_product\<lparr> Name := Val (''_'' @ to_string (Sku same_name_product)),
                                   Active := Val False \<rparr>,
       sparse = False \<rparr>"

definition reactivation :: "item \<Rightarrow> latest_product \<Rightarrow> update_request" where
  "reactivation existing_product latest =
     \<lparr> entity = existing_product\<lparr> Name := Name latest, Sku := Sku latest,
                                  Description := Description latest,
                                  PurchaseDesc := PurchaseDesc latest,
                                  UnitPrice := UnitPrice latest,
                                  PurchaseCost := PurchaseCost latest,
                                  Taxable := Taxable latest, SubItem := SubItem latest,
                                  ParentRef := ParentRef latest, Active := Val True \<rparr>,
       sparse = False \<rparr>"

definition new_item :: "latest_product \<Rightarrow> account_refs \<Rightarrow> string \<Rightarrow> item" where
  "new_item latest accounts today =
     \<lparr> Name = Name latest, Sku = Sku latest, Description = Description latest,
       PurchaseDesc = PurchaseDesc latest, UnitPrice = UnitPrice latest,
       PurchaseCost = PurchaseCost latest, Taxable = Taxable latest, SubItem = SubItem latest,
       ParentRef = ParentRef latest,
       Item_Id = Undefined,
       Active = Val True,
       TrackQtyOnHand = Val True,
       QtyOnHand = Val (Fin 0),
       InvStartDate = Val today,
       IncomeAccountRef = income_account_ref accounts,
       ExpenseAccountRef = expense_account_ref accounts,
       AssetAccountRef = asset_account_ref accounts,
       Other = [] \<rparr>"

text \<open>
  The name-collision guard: the value of \<^verbatim>\<open>existing_product\<close> after the lookup by name,
  with the deactivation of an item that has the name but another SKU.
\<close>

definition name_collision_guard :: "capabilities \<Rightarrow> latest_product \<Rightarrow> item nullable promise" where
  "name_collision_guard env latest =
     await (invoke (FindProductByName (Name latest)) (findProductByName env (Name latest)))
       (\<lambda>same_name_product.
          case same_name_product of
            Val s \<Rightarrow>
              if eq_str (Sku s) (Sku latest) then resolved same_name_product
              else await (invoke (UpdateProduct (deactivation s)) (updateProduct env (deactivation s)))
                     (\<lambda>_. resolved Undefined)
          | _ \<Rightarrow> resolved Undefined)"

text \<open>The lookup by SKU, when the guard left \<^verbatim>\<open>existing_product\<close> unset.\<close>

definition resolve_existing :: "capabilities \<Rightarrow> latest_product \<Rightarrow> item nullable promise" where
  "resolve_existing env latest =
     await (name_collision_guard env latest)
       (\<lambda>existing_product.
          if \<not> truthy_obj existing_product
          then invoke (FindProductBySKU (Sku latest)) (findProductBySKU env (Sku latest))
          else resolved existing_product)"

text \<open>The rest of \<^verbatim>\<open>syncProduct\<close>: update (or leave) the existing item and return, or create.\<close>

definition reconcile :: "capabilities \<Rightarrow> latest_product \<Rightarrow> item nullable \<Rightarrow> unit promise" where
  "reconcile env latest existing_product =
     (case existing_product of
        Val ex \<Rightarrow>
          if didChangeProductContent ex latest \<or> \<not> truthy_bool (Active ex)
          then await (invoke (UpdateProduct (reactivation ex latest))
                        (updateProduct env (reactivation ex latest)))
                 (\<lambda>_. resolved ())
          else resolved ()
      | _ \<Rightarrow>
          await (resolveAccountRefs env)
            (\<lambda>accounts.
               await (invoke (CreateProduct (new_item latest accounts (take 10 (toISOString env))))
                        (createProduct env (new_item latest accounts (take 10 (toISOString env)))))
                 (\<lambda>_. resolved ())))"

definition syncProduct :: "capabilities \<Rightarrow> product \<Rightarrow> unit promise" where
  "syncProduct env p =
     await (latest_category_of env p)
       (\<lambda>latest_category.
          await (resolve_existing env (latest_product_of p latest_category))
            (reconcile env (latest_product_of p latest_category)))"

text \<open>What follows a guard that left \<^verbatim>\<open>existing_product\<close> unset: the lookup by SKU and the rest.\<close>

definition after_guard :: "capabilities \<Rightarrow> latest_product \<Rightarrow> unit promise" where
  "after_guard env latest =
     await (invoke (FindProductBySKU (Sku latest)) (findProductBySKU env (Sku latest)))
       (reconcile env latest)"

text \<open>The write calls.\<close>

fun is_write :: "call \<Rightarrow> bool" where
  "is_write (CreateCategory _) = True"
| "is_write (CreateProduct _) = True"
| "is_write (UpdateProduct _) = True"
| "is_write _ = False"

fun is_create_product :: "call \<Rightarrow> bool" where
  "is_create_product (CreateProduct _) = True"
| "is_create_product _ = False"

text \<open>
  Example data: a product without a category, a ledger that knows every account, and an
  accounting store that holds the given items (looked up by \<^verbatim>\<open>==\<close> on name and on SKU)
  and accepts every write.
\<close>

definition salsa :: product where
  "salsa =
     \<lparr> name = Val ''Acme Salsa'', category = Null, p_sku = Val ''NEW1'',
       description = Val ''Acme Salsa, barcode: 0001'',
       unit_price = Val (Fin (999 / 100)), purchase_cost = Val (Fin (9 / 2)),
       p_taxable = Val True \<rparr>"

definition ledger :: "string \<Rightarrow> error + account nullable" where
  "ledger n = Inr (Val \<lparr>acct_Id = Val (''id of '' @ n), acct_Name = Val n\<rparr>)"

definition store :: "item list \<Rightarrow> capabilities" where
  "store its =
     \<lparr> findCategoryByName = (\<lambda>_. Inr Null),
       createCategory = (\<lambda>n. Inr (Val \<lparr>cat_value = Undefined, cat_name = Undefined\<rparr>)),
       findProductByName =
         (\<lambda>n. case filter (\<lambda>i. eq_str (Name i) n) its of [] \<Rightarrow> Inr Null | i # _ \<Rightarrow> Inr (Val i)),
       findProductBySKU =
         (\<lambda>s. case filter (\<lambda>i. eq_str (Sku i) s) its of [] \<Rightarrow> Inr Null | i # _ \<Rightarrow> Inr (Val i)),
       createProduct = (\<lambda>i. Inr (Val i)),
       updateProduct = (\<lambda>u. Inr (Val (entity u))),
       findAccountByName = ledger,
       first_rejection = hd,
       toISOString = ''2020-08-01T10:15:30.000Z'' \<rparr>"

definition old_salsa :: item where
  "old_salsa =
     \<lparr> Name = Val ''Acme Salsa'', Sku = Val ''OLD1'', Description = Val ''Acme Salsa, barcode: 0000'',
       PurchaseDesc = Val ''Acme Salsa, barcode: 0000'', UnitPrice = Val (Fin 8),
       PurchaseCost = Val (Fin 4), Taxable = Val True, SubItem = Val False, ParentRef = Undefined,
       Item_Id = Val ''17'', Active = Val True, TrackQtyOnHand = Val True, QtyOnHand = Val (Fin 12),
       InvStartDate = Val ''2020-01-01'',
       IncomeAccountRef = Val \<lparr>ref_value = Val ''79'', ref_name = Val ''Sales of Product Income''\<rparr>,
       ExpenseAccountRef = Val \<lparr>ref_value = Val ''80'', ref_name = Val ''Cost of Goods Sold''\<rparr>,
       AssetAccountRef = Val \<lparr>ref_value = Val ''81'', ref_name = Val ''Inventory Asset''\<rparr>,
       Other = [(''SyncToken'', ''3''), (''Type'', ''Inventory'')] \<rparr>"

text \<open>A ledger without the account \<^verbatim>\<open>Cost of Goods Sold\<close>: the lookup resolves with \<^verbatim>\<open>null\<close>.\<close>

definition ledger_without_cogs :: "string \<Rightarrow> error + account nullable" where
  "ledger_without_cogs n = (if n = ''Cost of Goods Sold'' then Inr Null else ledger n)"

text \<open>
  A product whose unit price is \<^verbatim>\<open>NaN\<close> (what \<^verbatim>\<open>parseFloat\<close> gives for a price without a
  number in front), and the item that a first run of \<^verbatim>\<open>syncProduct\<close> creates for it.
\<close>

definition nan_salsa :: product where
  "nan_salsa = salsa\<lparr>unit_price := Val NaN\<rparr>"

definition nan_item :: item where
  "nan_item =
     \<lparr> Name = Val ''Acme Salsa'', Sku = Val ''NEW1'', Description = Val ''Acme Salsa, barcode: 0001'',
       PurchaseDesc = Val ''Acme Salsa, barcode: 0001'', UnitPrice = Val NaN,
       PurchaseCost = Val (Fin (9 / 2)), Taxable = Val True, SubItem = Val False, ParentRef = Null,
       Item_Id = Undefined, Active = Val True, TrackQtyOnHand = Val True, QtyOnHand = Val (Fin 0),
       InvStartDate = Val ''2020-08-01'',
       IncomeAccountRef =
         Val \<lparr>ref_value = Val ''id of Sales of Product Income'', ref_name = Val ''Sales of Product Income''\<rparr>,
       ExpenseAccountRef =
         Val \<lparr>ref_value = Val ''id of Cost of Goods Sold'', ref_name = Val ''Cost of Goods Sold''\<rparr>,
       AssetAccountRef =
         Val \<lparr>ref_value = Val ''id of Inventory Asset'', ref_name = Val ''Inventory Asset''\<rparr>,
       Other = [] \<rparr>"

text \<open>
  The item that a successful run leaves under the product's name: the existing item as
  updated, the existing item as it was when nothing was written, or the new item.
\<close>

definition item_left ::
  "capabilities \<Rightarrow> latest_product \<Rightarrow> item nullable \<Rightarrow> account_refs \<Rightarrow> item" where
  "item_left env latest existing accounts =
     (case existing of
        Val ex \<Rightarrow>
          if didChangeProductContent ex latest \<or> \<not> truthy_bool (Active ex)
          then entity (reactivation ex latest) else ex
      | _ \<Rightarrow> new_item latest accounts (take 10 (toISOString env)))"

section \<open>Properties of the name generator and the parser\<close>

lemma space_join_snoc: "xs \<noteq> [] \<Longrightarrow> space_join (xs @ [y]) = space_join xs @ '' '' @ y"
  by (induction xs rule: space_join.induct) auto

lemma kept_option_values_snoc:
  "kept_option_values (opts @ [opt]) =
     kept_option_values opts @
       (if truthy_str (ovalue opt) \<and> \<not> eq_str (ovalue opt) (Val ''Default Title'')
        then [to_string (ovalue opt)] else [])"
  by (cases "ovalue opt") (simp_all add: kept_option_values_def)

lemma generateProductName_snoc:
  "generateProductName v t (opts @ [opt]) =
     (if truthy_str (ovalue opt) \<and> \<not> eq_str (ovalue opt) (Val ''Default Title'')
      then generateProductName v t opts @ '' '' @ to_string (ovalue opt)
      else generateProductName v t opts)"
  by (simp add: generateProductName_def)

lemma generateProductName_space_join:
  "generateProductName (Val v) (Val t) opts = space_join (v # t # kept_option_values opts)"
proof (induction opts rule: rev_induct)
  case Nil
  show ?case by (simp add: generateProductName_def kept_option_values_def)
next
  case (snoc opt opts)
  have "space_join ((v # t # kept_option_values opts) @ [to_string (ovalue opt)]) =
        space_join (v # t # kept_option_values opts) @ '' '' @ to_string (ovalue opt)"
    by (rule space_join_snoc) simp
  with snoc show ?case
    by (simp add: generateProductName_snoc kept_option_values_snoc)
qed

text \<open>
  C8. For every vendor, title and list of selected options the generated name is vendor
  and title joined by a space, followed by every option value that is non-empty and not
  \<^verbatim>\<open>Default Title\<close>, in option order and joined by spaces, with nothing cut or replaced;
  the two examples of the specification evaluate to \<^verbatim>\<open>Acme Salsa\<close> and \<^verbatim>\<open>Acme Salsa Hot\<close>.
\<close>

theorem generateProductName_spec:
  "generateProductName (Val v) (Val t) opts = space_join (v # t # kept_option_values opts)
   \<and> generateProductName (Val ''Acme'') (Val ''Salsa'') [\<lparr>ovalue = Val ''Default Title''\<rparr>]
       = ''Acme Salsa''
   \<and> generateProductName (Val ''Acme'') (Val ''Salsa'') [\<lparr>ovalue = Val ''Hot''\<rparr>]
       = ''Acme Salsa Hot''"
proof -
  have "generateProductName (Val ''Acme'') (Val ''Salsa'') [\<lparr>ovalue = Val ''Default Title''\<rparr>]
          = ''Acme Salsa''"
    by (simp add: generateProductName_def)
  moreover
  have "generateProductName (Val ''Acme'') (Val ''Salsa'') [\<lparr>ovalue = Val ''Hot''\<rparr>]
          = ''Acme Salsa Hot''"
    by (simp add: generateProductName_def)
  ultimately show ?thesis
    using generateProductName_space_join [of v t opts] by blast
qed

text \<open>
  What \<^verbatim>\<open>parseProduct\<close> does establish: the derived name and description, the
  pass-through fields, a \<^verbatim>\<open>null\<close> unit price for an absent or empty price and a \<^verbatim>\<open>null\<close>
  purchase cost for an absent \<^verbatim>\<open>unit_cost\<close> object.
\<close>

lemma parseProduct_fields:
  assumes "inventory_item v = Val ii"
  shows "\<exists>p. parseProduct numval v = Inr p
           \<and> name p = Val (generateProductName (vendor v) (title v) (selected_options v))
           \<and> description p = Val (to_string (name p) @ '', barcode: '' @ to_string (barcode v))
           \<and> category p = product_type v \<and> p_sku p = sku v \<and> p_taxable p = taxable v
           \<and> (\<not> truthy_str (price v) \<longrightarrow> unit_price p = Null)
           \<and> (truthy_str (price v) \<longrightarrow> unit_price p = Val (parseFloat numval (price v)))
           \<and> (\<not> truthy_obj (unit_cost ii) \<longrightarrow> purchase_cost p = Null)"
  using assms by (simp add: parseProduct_def generateProductDescription_def Let_def)

lemma parseFloat_empty: "parseFloat numval (Val []) = NaN"
  by (simp add: parseFloat_def str_decimal_prefix_def)

lemma parseFloat_null: "parseFloat numval Null = NaN"
  by (simp add: parseFloat_def str_decimal_prefix_def unsigned_decimal_prefix_def is_digit_def
      is_space_def)

text \<open>
  C7. The claim promises a \<^verbatim>\<open>null\<close> purchase cost whenever the unit-cost amount is absent
  or empty. The code tests the \<^verbatim>\<open>unit_cost\<close> object, not its amount: for a variant whose
  \<^verbatim>\<open>unit_cost\<close> is present with the empty amount it returns \<^verbatim>\<open>parseFloat("")\<close>, which is
  \<^verbatim>\<open>NaN\<close> and not \<^verbatim>\<open>null\<close>, and likewise for an amount that is \<^verbatim>\<open>null\<close> (the price, next to
  it, is tested itself and does become \<^verbatim>\<open>null\<close>).
\<close>

theorem parseProduct_empty_amount_NaN:
  "map_sum id purchase_cost
     (parseProduct numval
        (v\<lparr>inventory_item := Val \<lparr>unit_cost = Val \<lparr>amount = Val []\<rparr>\<rparr>\<rparr>)) = Inr (Val NaN)
   \<and> map_sum id purchase_cost
     (parseProduct numval
        (v\<lparr>inventory_item := Val \<lparr>unit_cost = Val \<lparr>amount = Null\<rparr>\<rparr>\<rparr>)) = Inr (Val NaN)
   \<and> map_sum id unit_price (parseProduct numval (v\<lparr>price := Val [], inventory_item := Val ii\<rparr>))
       = Inr Null"
  by (simp add: parseProduct_def parseFloat_empty parseFloat_null Let_def)

subsection \<open>Validation\<close>

lemma name_check_codes:
  "code ` set (fst (name_check v d)) \<subseteq> {102, 103}
   \<or> code ` set (fst (name_check v d)) \<subseteq> {104, 105}
   \<or> code ` set (fst (name_check v d)) \<subseteq> {106}"
  by (auto simp: name_check_def Let_def)

lemma sku_check_codes: "code ` set (fst (sku_check v d)) \<subseteq> {107, 108}"
  by (auto simp: sku_check_def)

lemma barcode_check_codes: "code ` set (fst (barcode_check v d)) \<subseteq> {109, 110}"
  by (auto simp: barcode_check_def)

lemma price_errors_codes: "code ` set (price_errors v) \<subseteq> {100}"
  by (auto simp: price_errors_def)

lemma cost_errors_codes: "code ` set (cost_errors v) \<subseteq> {101}"
  by (auto simp: cost_errors_def)

lemma exclusive_groups_parts:
  fixes a b c d e :: "nat set"
  assumes "a \<subseteq> {100}" "b \<subseteq> {101}" "d \<subseteq> {107, 108}" "e \<subseteq> {109, 110}"
    and "c \<subseteq> {102, 103} \<or> c \<subseteq> {104, 105} \<or> c \<subseteq> {106}"
  shows "exclusive_groups (a \<union> b \<union> c \<union> d \<union> e)"
  unfolding exclusive_groups_def using assms by auto

lemma validate_variant_results:
  "\<exists>r. acc_results (validate_variant st v) = acc_results st @ [r] \<and> exclusive_groups (codes r)"
proof -
  let ?r = "\<lparr> r_id = vid v, r_product_id = product_id v, r_title = title v,
              errors = price_errors v @ cost_errors v @ fst (name_check v (existing_names st)) @
                fst (sku_check v (existing_skus st)) @
                fst (barcode_check v (existing_barcodes st)) \<rparr>"
  have "acc_results (validate_variant st v) = acc_results st @ [?r]"
    by (simp add: validate_variant_def Let_def)
  moreover
  have "codes ?r = code ` set (price_errors v) \<union> code ` set (cost_errors v) \<union>
          code ` set (fst (name_check v (existing_names st))) \<union>
          code ` set (fst (sku_check v (existing_skus st))) \<union>
          code ` set (fst (barcode_check v (existing_barcodes st)))"
    by (simp add: codes_def image_Un Un_assoc)
  then have "exclusive_groups (codes ?r)"
    using exclusive_groups_parts [OF price_errors_codes cost_errors_codes sku_check_codes
        barcode_check_codes name_check_codes]
    by simp
  ultimately show ?thesis by blast
qed

lemma foldl_validate_exclusive:
  "\<forall>r \<in> set (acc_results st). exclusive_groups (codes r) \<Longrightarrow>
   \<forall>r \<in> set (acc_results (foldl validate_variant st vs)). exclusive_groups (codes r)"
proof (induction vs arbitrary: st)
  case Nil
  then show ?case by simp
next
  case (Cons v vs)
  obtain r where "acc_results (validate_variant st v) = acc_results st @ [r]"
    and "exclusive_groups (codes r)"
    using validate_variant_results by blast
  with Cons.prems have "\<forall>r \<in> set (acc_results (validate_variant st v)). exclusive_groups (codes r)"
    by auto
  from Cons.IH [OF this] show ?case by simp
qed

lemma name_check_table: "snd (name_check v d) = table_step name_key d v"
  by (simp add: name_check_def table_step_def name_key_def Let_def)

lemma sku_check_table: "snd (sku_check v d) = table_step sku_key d v"
  by (simp add: sku_check_def table_step_def sku_key_def)

lemma barcode_check_table: "snd (barcode_check v d) = table_step barcode_key d v"
  by (simp add: barcode_check_def table_step_def barcode_key_def)

lemma validate_variant_acc:
  "acc_results (validate_variant st v) =
     acc_results st @
       [\<lparr> r_id = vid v, r_product_id = product_id v, r_title = title v,
           errors = price_errors v @ cost_errors v @ fst (name_check v (existing_names st)) @
             fst (sku_check v (existing_skus st)) @
             fst (barcode_check v (existing_barcodes st)) \<rparr>]"
  by (simp add: validate_variant_def Let_def)

lemma foldl_validate_tables:
  "existing_names (foldl validate_variant st vs) = foldl (table_step name_key) (existing_names st) vs
   \<and> existing_skus (foldl validate_variant st vs) = foldl (table_step sku_key) (existing_skus st) vs
   \<and> existing_barcodes (foldl validate_variant st vs) =
       foldl (table_step barcode_key) (existing_barcodes st) vs"
  by (induction vs arbitrary: st)
     (simp_all add: validate_variant_def Let_def name_check_table sku_check_table
        barcode_check_table)

lemma find_snoc:
  "find P (xs @ [y]) = (case find P xs of None \<Rightarrow> (if P y then Some y else None) | Some x \<Rightarrow> Some x)"
  by (induction xs) simp_all

lemma find_in_set: "find P xs = Some x \<Longrightarrow> x \<in> set xs \<and> P x"
  by (induction xs) (auto split: if_splits)

lemma get_prop_table_step:
  "get_prop (table_step key d v) k =
     (if key v = Some k \<and> \<not> truthy_slot (get_prop d k) then Own (vid v) else get_prop d k)"
  by (cases "key v") (auto simp: table_step_def get_prop_def)

text \<open>
  The table after a run of variants with truthy ids: a key that \<^verbatim>\<open>Object.prototype\<close> does
  not know maps to the id of the first variant that brought it.
\<close>

lemma table_first:
  assumes "\<forall>v \<in> set vs. truthy_str (vid v)" and "k \<notin> set object_prototype_keys"
  shows "get_prop (foldl (table_step key) Map.empty vs) k =
           (case find (\<lambda>v. key v = Some k) vs of None \<Rightarrow> Absent | Some f \<Rightarrow> Own (vid f))"
  using assms(1)
proof (induction vs rule: rev_induct)
  case Nil
  show ?case using assms(2) by (simp add: get_prop_def)
next
  case (snoc v vs)
  let ?d = "foldl (table_step key) Map.empty vs"
  have ih: "get_prop ?d k =
      (case find (\<lambda>v. key v = Some k) vs of None \<Rightarrow> Absent | Some f \<Rightarrow> Own (vid f))"
    using snoc by simp
  show ?case
  proof (cases "find (\<lambda>v. key v = Some k) vs")
    case None
    with ih show ?thesis
      by (simp add: get_prop_table_step find_snoc)
  next
    case (Some f)
    then have "truthy_str (vid f)"
      using snoc.prems find_in_set [OF Some] by simp
    with ih Some show ?thesis
      by (simp add: get_prop_table_step find_snoc)
  qed
qed

lemma foldl_validate_length:
  "length (acc_results (foldl validate_variant st vs)) = length (acc_results st) + length vs"
  by (induction vs arbitrary: st) (simp_all add: validate_variant_acc)

lemma foldl_validate_extends:
  "\<exists>rest. acc_results (foldl validate_variant st vs) = acc_results st @ rest"
proof (induction vs arbitrary: st)
  case Nil
  show ?case by simp
next
  case (Cons v vs)
  obtain rest where "acc_results (foldl validate_variant (validate_variant st v) vs) =
      acc_results (validate_variant st v) @ rest"
    using Cons.IH by blast
  then show ?case by (simp add: validate_variant_acc)
qed

text \<open>The errors of the \<open>j\<close>-th result: the checks of the \<open>j\<close>-th variant against the tables of the variants before it.\<close>

lemma result_nth:
  assumes "j < length vs"
  shows "errors (results (validateProductVariants vs) ! j) =
           price_errors (vs ! j) @ cost_errors (vs ! j) @
           fst (name_check (vs ! j) (foldl (table_step name_key) Map.empty (take j vs))) @
           fst (sku_check (vs ! j) (foldl (table_step sku_key) Map.empty (take j vs))) @
           fst (barcode_check (vs ! j) (foldl (table_step barcode_key) Map.empty (take j vs)))"
proof -
  let ?st = "foldl validate_variant empty_tables (take j vs)"
  have split: "vs = take j vs @ (vs ! j) # drop (Suc j) vs"
    using assms by (simp add: id_take_nth_drop)
  have len: "length (acc_results ?st) = j"
    using assms by (simp add: foldl_validate_length empty_tables_def)
  obtain rest where
    "acc_results (foldl validate_variant (validate_variant ?st (vs ! j)) (drop (Suc j) vs)) =
       acc_results (validate_variant ?st (vs ! j)) @ rest"
    using foldl_validate_extends by blast
  then have "acc_results (foldl validate_variant empty_tables (take j vs @ (vs ! j) # drop (Suc j) vs)) ! j
      = (acc_results (validate_variant ?st (vs ! j)) @ rest) ! j"
    by simp
  also have "\<dots> = last (acc_results (validate_variant ?st (vs ! j)))"
    using len by (simp add: validate_variant_acc nth_append)
  finally have "acc_results (foldl validate_variant empty_tables vs) ! j =
      last (acc_results (validate_variant ?st (vs ! j)))"
    using split by simp
  then show ?thesis
    using foldl_validate_tables [of empty_tables "take j vs"]
    by (simp add: validateProductVariants_def Let_def validate_variant_acc empty_tables_def)
qed

text \<open>The name codes of the \<open>j\<close>-th result are those of the name check of the \<open>j\<close>-th variant.\<close>

lemma name_check_code_iff:
  "(102 \<in> code ` set (fst (name_check v d)) \<longleftrightarrow> empty_field (vendor v))
   \<and> (103 \<in> code ` set (fst (name_check v d)) \<longleftrightarrow> empty_field (title v))
   \<and> (104 \<in> code ` set (fst (name_check v d)) \<longleftrightarrow>
        \<not> (empty_field (vendor v) \<or> empty_field (title v)) \<and>
        take 1 (generateProductName (vendor v) (title v) (selected_options v)) = ''_'')
   \<and> (105 \<in> code ` set (fst (name_check v d)) \<longleftrightarrow>
        \<not> (empty_field (vendor v) \<or> empty_field (title v)) \<and>
        length (generateProductName (vendor v) (title v) (selected_options v)) > 100)
   \<and> (106 \<in> code ` set (fst (name_check v d)) \<longrightarrow>
        \<not> (empty_field (vendor v) \<or> empty_field (title v)) \<and>
        \<not> (take 1 (generateProductName (vendor v) (title v) (selected_options v)) = ''_'' \<or>
           length (generateProductName (vendor v) (title v) (selected_options v)) > 100))"
  by (auto simp: name_check_def Let_def)

lemma codes_nth:
  assumes "j < length vs"
  shows "codes (results (validateProductVariants vs) ! j) =
           code ` set (price_errors (vs ! j)) \<union> code ` set (cost_errors (vs ! j)) \<union>
           code ` set (fst (name_check (vs ! j) (foldl (table_step name_key) Map.empty (take j vs)))) \<union>
           code ` set (fst (sku_check (vs ! j) (foldl (table_step sku_key) Map.empty (take j vs)))) \<union>
           code ` set (fst (barcode_check (vs ! j)
                             (foldl (table_step barcode_key) Map.empty (take j vs))))"
  by (simp add: codes_def result_nth [OF assms] image_Un Un_assoc)

lemma name_codes_nth:
  assumes "j < length vs" and "c \<in> {102, 103, 104, 105, 106}"
  shows "c \<in> codes (results (validateProductVariants vs) ! j) \<longleftrightarrow>
         c \<in> code ` set (fst (name_check (vs ! j) (foldl (table_step name_key) Map.empty (take j vs))))"
  using assms(2) price_errors_codes [of "vs ! j"] cost_errors_codes [of "vs ! j"]
    sku_check_codes [of "vs ! j" "foldl (table_step sku_key) Map.empty (take j vs)"]
    barcode_check_codes [of "vs ! j" "foldl (table_step barcode_key) Map.empty (take j vs)"]
  unfolding codes_nth [OF assms(1)] by auto

text \<open>
  C4. In every result of a validation batch the error codes never combine a presence code
  (102, 103) with a name code (104, 105, 106), and never combine a name-shape code
  (104, 105) with the duplicate-name code 106. There is one result per variant, in order,
  and for the \<open>j\<close>-th variant: when vendor or title is missing or empty, its result has none
  of the codes 104, 105, 106; when its generated name starts with \<^verbatim>\<open>_\<close> or is longer than
  100, its result has no code 106, whatever the other variants of the batch are; and the
  codes 102, 103, 104 and 105 appear exactly under their conditions.
\<close>

theorem validate_codes_exclusive:
  "(\<forall>r \<in> set (results (validateProductVariants vs)). exclusive_groups (codes r))
   \<and> length (results (validateProductVariants vs)) = length vs
   \<and> (\<forall>j < length vs.
         (empty_field (vendor (vs ! j)) \<or> empty_field (title (vs ! j)) \<longrightarrow>
            codes (results (validateProductVariants vs) ! j) \<inter> {104, 105, 106} = {})
       \<and> (take 1 (generateProductName (vendor (vs ! j)) (title (vs ! j))
                     (selected_options (vs ! j))) = ''_''
          \<or> length (generateProductName (vendor (vs ! j)) (title (vs ! j))
                       (selected_options (vs ! j))) > 100 \<longrightarrow>
            106 \<notin> codes (results (validateProductVariants vs) ! j))
       \<and> (102 \<in> codes (results (validateProductVariants vs) ! j) \<longleftrightarrow>
            empty_field (vendor (vs ! j)))
       \<and> (103 \<in> codes (results (validateProductVariants vs) ! j) \<longleftrightarrow>
            empty_field (title (vs ! j)))
       \<and> (104 \<in> codes (results (validateProductVariants vs) ! j) \<longleftrightarrow>
            \<not> (empty_field (vendor (vs ! j)) \<or> empty_field (title (vs ! j))) \<and>
            take 1 (generateProductName (vendor (vs ! j)) (title (vs ! j))
                     (selected_options (vs ! j))) = ''_'')
       \<and> (105 \<in> codes (results (validateProductVariants vs) ! j) \<longleftrightarrow>
            \<not> (empty_field (vendor (vs ! j)) \<or> empty_field (title (vs ! j))) \<and>
            length (generateProductName (vendor (vs ! j)) (title (vs ! j))
                      (selected_options (vs ! j))) > 100))"
proof (intro conjI allI impI)
  show "\<forall>r \<in> set (results (validateProductVariants vs)). exclusive_groups (codes r)"
    using foldl_validate_exclusive [of empty_tables vs]
    by (simp add: validateProductVariants_def empty_tables_def Let_def)
  show "length (results (validateProductVariants vs)) = length vs"
    by (simp add: validateProductVariants_def Let_def foldl_validate_length empty_tables_def)
next
  fix j assume j: "j < length vs"
  let ?v = "vs ! j"
  let ?d = "foldl (table_step name_key) Map.empty (take j vs)"
  let ?r = "results (validateProductVariants vs) ! j"
  note nc = name_check_code_iff [of ?v ?d]
  have m: "c \<in> codes ?r \<longleftrightarrow> c \<in> code ` set (fst (name_check ?v ?d))"
    if "c \<in> {102, 103, 104, 105, 106}" for c
    using name_codes_nth [OF j that] .
  { assume "empty_field (vendor ?v) \<or> empty_field (title ?v)"
    then show "codes ?r \<inter> {104, 105, 106} = {}"
      using nc m [of 104] m [of 105] m [of 106] by auto }
  { assume "take 1 (generateProductName (vendor ?v) (title ?v) (selected_options ?v)) = ''_''
          \<or> length (generateProductName (vendor ?v) (title ?v) (selected_options ?v)) > 100"
    then show "106 \<notin> codes ?r"
      using nc m [of 106] by auto }
  show "102 \<in> codes ?r \<longleftrightarrow> empty_field (vendor ?v)"
    using nc m [of 102] by simp
  show "103 \<in> codes ?r \<longleftrightarrow> empty_field (title ?v)"
    using nc m [of 103] by simp
  show "104 \<in> codes ?r \<longleftrightarrow>
        \<not> (empty_field (vendor ?v) \<or> empty_field (title ?v)) \<and>
        take 1 (generateProductName (vendor ?v) (title ?v) (selected_options ?v)) = ''_''"
    using nc m [of 104] by simp
  show "105 \<in> codes ?r \<longleftrightarrow>
        \<not> (empty_field (vendor ?v) \<or> empty_field (title ?v)) \<and>
        length (generateProductName (vendor ?v) (title ?v) (selected_options ?v)) > 100"
    using nc m [of 105] by simp
qed

text \<open>
  A batch in which a name that starts with \<^verbatim>\<open>_\<close> and a name of 107 characters are each
  used twice: the repeated names get 104 and 105 again, never 106.
\<close>

theorem validate_codes_exclusive_witness:
  "map (\<lambda>r. map code (errors r)) (results (validateProductVariants malformed_batch)) =
     [[102, 108], [104], [104], [105], [105]]
   \<and> exclusive_groups (codes (results (validateProductVariants malformed_batch) ! 0))
   \<and> codes (results (validateProductVariants malformed_batch) ! 0) \<inter> {104, 105, 106} = {}
   \<and> 106 \<notin> codes (results (validateProductVariants malformed_batch) ! 2)
   \<and> 106 \<notin> codes (results (validateProductVariants malformed_batch) ! 4)"
proof -
  let ?rs = "results (validateProductVariants malformed_batch)"
  have len: "length malformed_batch = 5"
    by (simp add: malformed_batch_def)
  have h0: "empty_field (vendor (malformed_batch ! 0))"
    by (simp add: malformed_batch_def empty_field_def)
  have h2: "take 1 (generateProductName (vendor (malformed_batch ! 2)) (title (malformed_batch ! 2))
                     (selected_options (malformed_batch ! 2))) = ''_''"
    by (simp add: malformed_batch_def constructor_variant_def generateProductName_def)
  have h4: "length (generateProductName (vendor (malformed_batch ! 4)) (title (malformed_batch ! 4))
                      (selected_options (malformed_batch ! 4))) > 100"
    by (simp add: malformed_batch_def constructor_variant_def generateProductName_def)
  note all = validate_codes_exclusive [of malformed_batch, THEN conjunct1]
  note each = validate_codes_exclusive [of malformed_batch, THEN conjunct2, THEN conjunct2, rule_format]
  have ev: "map (\<lambda>r. map code (errors r)) ?rs = [[102, 108], [104], [104], [105], [105]]"
    by (simp add: validateProductVariants_def validate_variant_def constructor_variant_def
        malformed_batch_def
        empty_tables_def name_check_def sku_check_def barcode_check_def price_errors_def
        cost_errors_def cost_missing_def empty_field_def get_prop_def generateProductName_def
        object_prototype_keys_def Let_def)
  have "length ?rs = 5"
    using validate_codes_exclusive [of malformed_batch] len by simp
  then have "?rs ! 0 \<in> set ?rs"
    by simp
  with all have e0: "exclusive_groups (codes (?rs ! 0))"
    by blast
  have c0: "codes (?rs ! 0) \<inter> {104, 105, 106} = {}"
    using each [of 0] h0 len by simp
  have c2: "106 \<notin> codes (?rs ! 2)"
    using each [of 2] h2 len by simp
  have c4: "106 \<notin> codes (?rs ! 4)"
    using each [of 4] h4 len by simp
  from ev e0 c0 c2 c4 show ?thesis by simp
qed

subsection \<open>First occurrence wins, for ordinary keys\<close>

lemma name_check_errors:
  assumes "name_key v = Some k"
  shows "fst (name_check v d) =
           (if truthy_slot (get_prop d k)
            then [\<lparr>code = 106,
                   message = ''duplicate name: '' @ k @
                     ''; the name is already in use by product variant with id: '' @
                     slot_text (get_prop d k)\<rparr>]
            else [])"
  using assms by (auto simp: name_check_def name_key_def Let_def split: if_splits)

lemma sku_check_errors:
  assumes "sku_key v = Some k"
  shows "fst (sku_check v d) =
           (if truthy_slot (get_prop d k)
            then [\<lparr>code = 108,
                   message = ''duplicate sku: '' @ k @
                     ''; the sku is already in use by product variant with id: '' @
                     slot_text (get_prop d k)\<rparr>]
            else [])"
  using assms by (auto simp: sku_check_def sku_key_def split: if_splits)

lemma barcode_check_errors:
  assumes "barcode_key v = Some k"
  shows "fst (barcode_check v d) =
           (if truthy_slot (get_prop d k)
            then [\<lparr>code = 110,
                   message = ''duplicate barcode: '' @ k @
                     ''; the barcode is already in use by product variant with id: '' @
                     slot_text (get_prop d k)\<rparr>]
            else [])"
  using assms by (auto simp: barcode_check_def barcode_key_def split: if_splits)

lemma other_codes:
  "c \<in> {106, 108, 110} \<Longrightarrow> filter (\<lambda>e. code e = c) (price_errors v) = []"
  "c \<in> {106, 108, 110} \<Longrightarrow> filter (\<lambda>e. code e = c) (cost_errors v) = []"
  "c \<in> {108, 110} \<Longrightarrow> filter (\<lambda>e. code e = c) (fst (name_check v d)) = []"
  "c \<in> {106, 110} \<Longrightarrow> filter (\<lambda>e. code e = c) (fst (sku_check v d)) = []"
  "c \<in> {106, 108} \<Longrightarrow> filter (\<lambda>e. code e = c) (fst (barcode_check v d)) = []"
  by (auto simp: price_errors_def cost_errors_def name_check_def sku_check_def
      barcode_check_def Let_def)

lemma space_in_generateProductName: "CHR '' '' \<in> set (generateProductName a b opts)"
  by (induction opts rule: rev_induct)
     (simp_all add: generateProductName_snoc, simp add: generateProductName_def)

lemma name_key_ordinary: "name_key v = Some k \<Longrightarrow> k \<notin> set object_prototype_keys"
proof -
  assume "name_key v = Some k"
  then have "k = generateProductName (vendor v) (title v) (selected_options v)"
    by (auto simp: name_key_def Let_def split: if_splits)
  then have "CHR '' '' \<in> set k"
    by (simp add: space_in_generateProductName)
  then show ?thesis
    by (auto simp: object_prototype_keys_def)
qed

text \<open>
  In a batch whose ids are all truthy, for a SKU or barcode that \<^verbatim>\<open>Object.prototype\<close> does
  not know and for every well-formed name: the variant gets the duplicate code exactly
  when an earlier variant of the batch brought the same key, whatever other errors that
  earlier variant had, and then once, with a message that names the id of the first of them.
\<close>

lemma sku_first_occurrence:
  assumes ids: "\<forall>v \<in> set vs. truthy_str (vid v)"
    and j: "j < length vs" and key: "sku_key (vs ! j) = Some k"
    and ordinary: "k \<notin> set object_prototype_keys"
  shows "filter (\<lambda>e. code e = 108) (errors (results (validateProductVariants vs) ! j)) =
           (case find (\<lambda>v. sku_key v = Some k) (take j vs) of
              None \<Rightarrow> []
            | Some f \<Rightarrow> [duplicate_error 108 ''sku'' k f])"
proof -
  have ids': "\<forall>v \<in> set (take j vs). truthy_str (vid v)"
    using ids by (meson in_set_takeD)
  have tf: "truthy_str (vid f)" if "find (\<lambda>v. sku_key v = Some k) (take j vs) = Some f" for f
    using ids' find_in_set [OF that] by simp
  show ?thesis
    using tf
    by (auto simp: result_nth [OF j] other_codes sku_check_errors [OF key]
        table_first [OF ids' ordinary] duplicate_error_def split: option.splits)
qed

lemma barcode_first_occurrence:
  assumes ids: "\<forall>v \<in> set vs. truthy_str (vid v)"
    and j: "j < length vs" and key: "barcode_key (vs ! j) = Some k"
    and ordinary: "k \<notin> set object_prototype_keys"
  shows "filter (\<lambda>e. code e = 110) (errors (results (validateProductVariants vs) ! j)) =
           (case find (\<lambda>v. barcode_key v = Some k) (take j vs) of
              None \<Rightarrow> []
            | Some f \<Rightarrow> [duplicate_error 110 ''barcode'' k f])"
proof -
  have ids': "\<forall>v \<in> set (take j vs). truthy_str (vid v)"
    using ids by (meson in_set_takeD)
  have tf: "truthy_str (vid f)" if "find (\<lambda>v. barcode_key v = Some k) (take j vs) = Some f" for f
    using ids' find_in_set [OF that] by simp
  show ?thesis
    using tf
    by (auto simp: result_nth [OF j] other_codes barcode_check_errors [OF key]
        table_first [OF ids' ordinary] duplicate_error_def split: option.splits)
qed

lemma name_first_occurrence:
  assumes ids: "\<forall>v \<in> set vs. truthy_str (vid v)"
    and j: "j < length vs" and key: "name_key (vs ! j) = Some k"
  shows "filter (\<lambda>e. code e = 106) (errors (results (validateProductVariants vs) ! j)) =
           (case find (\<lambda>v. name_key v = Some k) (take j vs) of
              None \<Rightarrow> []
            | Some f \<Rightarrow> [duplicate_error 106 ''name'' k f])"
proof -
  have ids': "\<forall>v \<in> set (take j vs). truthy_str (vid v)"
    using ids by (meson in_set_takeD)
  have tf: "truthy_str (vid f)" if "find (\<lambda>v. name_key v = Some k) (take j vs) = Some f" for f
    using ids' find_in_set [OF that] by simp
  show ?thesis
    using tf
    by (auto simp: result_nth [OF j] other_codes name_check_errors [OF key]
        table_first [OF ids' name_key_ordinary [OF key]] duplicate_error_def
        split: option.splits)
qed

text \<open>
  C5. First occurrence wins only for keys that \<^verbatim>\<open>Object.prototype\<close> does not know. The
  tables are plain objects, so for a SKU such as \<^verbatim>\<open>constructor\<close> the lookup of the very
  first variant finds the inherited, truthy property: a batch of this single variant
  reports the duplicate-SKU code 108 for it, its message naming a function where the
  first variant's id should stand, and the batch fails.
\<close>

theorem validate_constructor_sku_duplicate:
  "map code (errors (hd (results (validateProductVariants [constructor_variant])))) = [108]
   \<and> map message (errors (hd (results (validateProductVariants [constructor_variant])))) =
       [''duplicate sku: constructor; the sku is already in use by product variant with id: function Object() { [native code] }'']
   \<and> ok (validateProductVariants [constructor_variant]) = False"
  by (simp add: validateProductVariants_def validate_variant_def constructor_variant_def
      empty_tables_def name_check_def sku_check_def barcode_check_def price_errors_def cost_errors_def
      cost_missing_def empty_field_def generateProductName_def get_prop_def
      object_prototype_keys_def Let_def)


subsection \<open>Pagination\<close>

lemma js_concat_append: "js_concat acc its = acc @ js_concat [] its"
  by (cases its) (simp_all add: js_concat_def)

lemma retrieving_serves:
  "serves g c w ps fin \<Longrightarrow>
   \<exists>w'. retrieving g acc c calls w =
     Some ((case fin of None \<Rightarrow> Inr (acc @ concat (map page_elements ps)) | Some e \<Rightarrow> Inl e),
           calls @ c # map next_cursor (if fin = None then butlast ps else ps), w')"
proof (induction ps arbitrary: acc c calls w)
  case Nil
  then obtain e where fin: "fin = Some e" and g: "fst (g c w) = Inl e"
    by (cases fin) auto
  obtain r w' where gw: "g c w = (r, w')" by (cases "g c w")
  with g have "g c w = (Inl e, w')" by simp
  then show ?case
    by (subst retrieving.simps) (simp add: fin)
next
  case (Cons p ps)
  obtain w' where gw: "g c w = (Inr p, w')"
    using Cons.prems by (cases "g c w") auto
  show ?case
  proof (cases "truthy_str (next_cursor p)")
    case True
    with Cons.prems gw have rest: "serves g (next_cursor p) w' ps fin" by simp
    from Cons.IH [OF this, of "js_concat acc (items p)" "calls @ [c]"]
    obtain w'' where "retrieving g (js_concat acc (items p)) (next_cursor p) (calls @ [c]) w' =
       Some ((case fin of None \<Rightarrow> Inr (js_concat acc (items p) @ concat (map page_elements ps))
              | Some e \<Rightarrow> Inl e),
             (calls @ [c]) @ next_cursor p # map next_cursor (if fin = None then butlast ps else ps),
             w'')"
      by blast
    moreover have "ps \<noteq> [] \<or> fin \<noteq> None"
      using rest by (cases ps; cases fin) auto
    ultimately show ?thesis
      using True gw
      by (subst retrieving.simps)
         (auto simp: js_concat_append [of acc] page_elements_def split: option.splits)
  next
    case False
    with Cons.prems have "ps = []" "fin = None" by auto
    with False gw show ?thesis
      by (subst retrieving.simps) (simp add: js_concat_append [of acc] page_elements_def)
  qed
qed

lemma page_elements_items: "page_elements \<lparr>items = Val xs, next_cursor = c\<rparr> = map Val xs"
  by (simp add: page_elements_def js_concat_def)

text \<open>
  C9. Against a capability that serves the pages \<open>ps\<close>, the driver returns, calls the
  capability first with no cursor (\<^verbatim>\<open>null\<close>) and then once with each next cursor, one call
  per page and nothing after the first page without a next cursor, and returns the items
  of all pages concatenated in page order, nothing removed; when a call fails, the
  failure is the result of the whole collection and no further call is made.
\<close>

theorem getAllProductVariants_pages:
  assumes "serves g Null w ps fin"
  shows "\<exists>w'. getAllProductVariants g w =
     Some ((case fin of None \<Rightarrow> Inr (concat (map page_elements ps)) | Some e \<Rightarrow> Inl e),
           Null # map next_cursor (if fin = None then butlast ps else ps), w')"
proof -
  from retrieving_serves [OF assms, of "[]" "[]"] show ?thesis
    unfolding getAllProductVariants_def append_Nil .
qed

theorem getAllProductVariants_pages_witness:
  "serves three_pages Null 0
     [\<lparr>items = Val [1, 2], next_cursor = Val ''c1''\<rparr>, \<lparr>items = Val [3], next_cursor = Val ''c2''\<rparr>,
      \<lparr>items = Val [4, 5], next_cursor = Null\<rparr>] None
   \<and> (\<exists>w'. getAllProductVariants three_pages 0 =
       Some (Inr (map Val [1, 2, 3, 4, 5]), [Null, Val ''c1'', Val ''c2''], w'))"
proof -
  let ?ps = "[\<lparr>items = Val [1, 2], next_cursor = Val ''c1''\<rparr>,
              \<lparr>items = Val [3::nat], next_cursor = Val ''c2''\<rparr>,
              \<lparr>items = Val [4, 5], next_cursor = Null\<rparr>]"
  have s: "serves three_pages Null 0 ?ps None"
    by (simp add: three_pages_def)
  from getAllProductVariants_pages [OF s] obtain w' where
    r: "getAllProductVariants three_pages 0 =
      Some (Inr (concat (map page_elements ?ps)), Null # map next_cursor (butlast ?ps), w')"
    by auto
  have "getAllProductVariants three_pages 0 =
          Some (Inr (map Val [1, 2, 3, 4, 5]), [Null, Val ''c1'', Val ''c2''], w')"
    using r by (simp add: page_elements_def js_concat_def)
  with s show ?thesis by blast
qed

text \<open>A failing second call: the failure is the result, after two calls.\<close>

lemma getAllProductVariants_failure_example:
  "\<exists>w'. getAllProductVariants
          (\<lambda>c n. if c = Val ''c1'' then (Inl (Rejected ''timeout''), Suc n) else three_pages c n) 0 =
        Some (Inl (Rejected ''timeout''), [Null, Val ''c1''], w')"
proof -
  let ?g = "\<lambda>c n. if c = Val ''c1'' then (Inl (Rejected ''timeout''), Suc n) else three_pages c n"
  have "serves ?g Null 0 [\<lparr>items = Val [1, 2], next_cursor = Val ''c1''\<rparr>] (Some (Rejected ''timeout''))"
    by (simp add: three_pages_def)
  from retrieving_serves [OF this, of "[]" "[]"] show ?thesis
    unfolding getAllProductVariants_def by simp
qed

section \<open>Properties of the accounting engine\<close>

lemma await_Inl: "await (Inl e, t) f = (Inl e, t)"
  by (simp add: await_def)

lemma await_Inr: "await (Inr a, t) f = (fst (f a), t @ snd (f a))"
  by (simp add: await_def split: prod.splits)

lemma latest_category_of_calls:
  "set (snd (latest_category_of env p)) \<subseteq> {FindCategoryByName (category p), CreateCategory (category p)}"
  by (cases "findCategoryByName env (category p)")
     (auto simp: latest_category_of_def findOrCreateCategoryByName_def resolved_def invoke_def
        await_def split: prod.splits sum.splits)

text \<open>How an existing item gets resolved: by name with the same SKU, or by SKU.\<close>

lemma resolve_existing_cases:
  assumes "resolve_existing env latest = (Inr (Val ex), tr)"
  shows "(findProductByName env (Name latest) = Inr (Val ex) \<and> eq_str (Sku ex) (Sku latest)
            \<and> tr = [FindProductByName (Name latest)])
       \<or> (findProductBySKU env (Sku latest) = Inr (Val ex)
            \<and> (tr = [FindProductByName (Name latest), FindProductBySKU (Sku latest)]
               \<or> (\<exists>s. findProductByName env (Name latest) = Inr (Val s) \<and> \<not> eq_str (Sku s) (Sku latest)
                     \<and> tr = [FindProductByName (Name latest), UpdateProduct (deactivation s),
                             FindProductBySKU (Sku latest)])))"
proof (cases "findProductByName env (Name latest)")
  case (Inl e)
  with assms show ?thesis
    by (simp add: resolve_existing_def name_collision_guard_def invoke_def await_def)
next
  case (Inr same)
  show ?thesis
  proof (cases same)
    case (Val s)
    show ?thesis
    proof (cases "eq_str (Sku s) (Sku latest)")
      case True
      with assms Inr Val show ?thesis
        by (simp add: resolve_existing_def name_collision_guard_def invoke_def await_def
            resolved_def)
    next
      case False
      with assms Inr Val show ?thesis
        by (cases "updateProduct env (deactivation s)")
           (auto simp: resolve_existing_def name_collision_guard_def invoke_def await_def
              resolved_def)
    qed
  qed (use assms Inr in \<open>auto simp: resolve_existing_def name_collision_guard_def invoke_def
         await_def resolved_def\<close>)
qed

lemma reconcile_existing:
  "reconcile env latest (Val ex) =
     (if didChangeProductContent ex latest \<or> \<not> truthy_bool (Active ex)
      then (map_sum id (\<lambda>_. ()) (updateProduct env (reactivation ex latest)),
            [UpdateProduct (reactivation ex latest)])
      else (Inr (), []))"
  by (cases "updateProduct env (reactivation ex latest)")
     (simp_all add: reconcile_def invoke_def await_def resolved_def)

lemma syncProduct_steps:
  assumes "latest_category_of env p = (Inr lc, tc)"
    and "resolve_existing env (latest_product_of p lc) = (Inr existing, tr)"
  shows "syncProduct env p =
           (fst (reconcile env (latest_product_of p lc) existing),
            tc @ tr @ snd (reconcile env (latest_product_of p lc) existing))"
  using assms by (simp add: syncProduct_def await_Inr)

lemma didChangeProductContent_fields:
  "didChangeProductContent ex (latest_product_of p lc) =
     (\<not> (((\<not> truthy_obj (ParentRef ex) \<and> \<not> truthy_obj lc) \<or>
           (truthy_obj (ParentRef ex) \<and> truthy_obj lc \<and>
            eq_str (value_of (ParentRef ex)) (case lc of Val c \<Rightarrow> cat_value c | _ \<Rightarrow> Undefined))) \<and>
          eq_str (Name ex) (name p) \<and> eq_str (Sku ex) (p_sku p) \<and>
          eq_str (Description ex) (description p) \<and>
          eq_num (UnitPrice ex) (unit_price p) \<and>
          eq_num (PurchaseCost ex) (purchase_cost p)))"
  by (cases lc) (simp_all add: didChangeProductContent_def latest_product_of_def value_of_def)

text \<open>
  What the code does when \<^verbatim>\<open>syncProduct\<close> resolves an existing item \<open>ex\<close> (by name with the
  product's SKU, or else by SKU): the calls that follow the resolution are the single
  update of \<open>ex\<close> when the comparison by \<^verbatim>\<open>==\<close> of parent reference value, name, SKU,
  description, unit price and purchase cost fails for one of them, or \<open>ex\<close> is not active,
  and no call at all otherwise; the update carries the target's fields and
  \<^verbatim>\<open>Active: true\<close>; and the run ends there: \<^verbatim>\<open>createProduct\<close> is not called.
\<close>

lemma syncProduct_existing:
  assumes cat: "latest_category_of env p = (Inr lc, tc)"
    and res: "resolve_existing env (latest_product_of p lc) = (Inr (Val ex), tr)"
  shows "((findProductByName env (name p) = Inr (Val ex) \<and> eq_str (Sku ex) (p_sku p))
          \<or> findProductBySKU env (p_sku p) = Inr (Val ex))
       \<and> syncProduct env p =
           (if (\<not> (((\<not> truthy_obj (ParentRef ex) \<and> \<not> truthy_obj lc) \<or>
                     (truthy_obj (ParentRef ex) \<and> truthy_obj lc \<and>
                      eq_str (value_of (ParentRef ex))
                        (case lc of Val c \<Rightarrow> cat_value c | _ \<Rightarrow> Undefined))) \<and>
                    eq_str (Name ex) (name p) \<and> eq_str (Sku ex) (p_sku p) \<and>
                    eq_str (Description ex) (description p) \<and>
                    eq_num (UnitPrice ex) (unit_price p) \<and>
                    eq_num (PurchaseCost ex) (purchase_cost p)))
               \<or> \<not> truthy_bool (Active ex)
            then (map_sum id (\<lambda>_. ()) (updateProduct env (reactivation ex (latest_product_of p lc))),
                  tc @ tr @ [UpdateProduct (reactivation ex (latest_product_of p lc))])
            else (Inr (), tc @ tr))
       \<and> entity (reactivation ex (latest_product_of p lc)) =
           ex\<lparr> Name := name p, Sku := p_sku p, Description := description p,
               PurchaseDesc := description p, UnitPrice := unit_price p,
               PurchaseCost := purchase_cost p, Taxable := p_taxable p,
               SubItem := Val (truthy_obj lc),
               ParentRef := (case lc of
                               Val c \<Rightarrow> Val \<lparr>ref_value = cat_value c, ref_name = cat_name c\<rparr>
                             | _ \<Rightarrow> Null),
               Active := Val True \<rparr>
       \<and> filter is_create_product (snd (syncProduct env p)) = []"
proof -
  let ?latest = "latest_product_of p lc"
  have how: "(findProductByName env (name p) = Inr (Val ex) \<and> eq_str (Sku ex) (p_sku p))
          \<or> findProductBySKU env (p_sku p) = Inr (Val ex)"
    using resolve_existing_cases [OF res] by (auto simp: latest_product_of_def)
  have run: "syncProduct env p =
      (if didChangeProductContent ex ?latest \<or> \<not> truthy_bool (Active ex)
       then (map_sum id (\<lambda>_. ()) (updateProduct env (reactivation ex ?latest)),
             tc @ tr @ [UpdateProduct (reactivation ex ?latest)])
       else (Inr (), tc @ tr))"
    by (simp add: syncProduct_steps [OF cat res] reconcile_existing)
  have payload: "entity (reactivation ex ?latest) =
           ex\<lparr> Name := name p, Sku := p_sku p, Description := description p,
               PurchaseDesc := description p, UnitPrice := unit_price p,
               PurchaseCost := purchase_cost p, Taxable := p_taxable p,
               SubItem := Val (truthy_obj lc),
               ParentRef := (case lc of
                               Val c \<Rightarrow> Val \<lparr>ref_value = cat_value c, ref_name = cat_name c\<rparr>
                             | _ \<Rightarrow> Null),
               Active := Val True \<rparr>"
    by (simp add: reactivation_def latest_product_of_def)
  have "filter is_create_product tc = []"
    using latest_category_of_calls [of env p] cat by (auto simp: filter_empty_conv)
  moreover have "filter is_create_product tr = []"
    using resolve_existing_cases [OF res] by auto
  ultimately have nocreate: "filter is_create_product (snd (syncProduct env p)) = []"
    by (simp add: run)
  show ?thesis
    using how run payload nocreate
    unfolding didChangeProductContent_fields by blast
qed

text \<open>
  Two runs against a store that holds an item with the product's name and SKU: one whose
  description and prices differ from the product's, which is updated, and one equal to
  the target, for which nothing is written.
\<close>

lemma syncProduct_existing_examples:
  "latest_category_of (store [old_salsa\<lparr>Sku := Val ''NEW1''\<rparr>]) salsa = (Inr Null, [])
   \<and> resolve_existing (store [old_salsa\<lparr>Sku := Val ''NEW1''\<rparr>]) (latest_product_of salsa Null) =
       (Inr (Val (old_salsa\<lparr>Sku := Val ''NEW1''\<rparr>)), [FindProductByName (Val ''Acme Salsa'')])
   \<and> syncProduct (store [old_salsa\<lparr>Sku := Val ''NEW1''\<rparr>]) salsa =
       (Inr (),
        [FindProductByName (Val ''Acme Salsa''),
         UpdateProduct (reactivation (old_salsa\<lparr>Sku := Val ''NEW1''\<rparr>) (latest_product_of salsa Null))])
   \<and> syncProduct (store [nan_item\<lparr>UnitPrice := Val (Fin (999 / 100))\<rparr>]) salsa =
       (Inr (), [FindProductByName (Val ''Acme Salsa'')])"
proof -
  let ?it = "old_salsa\<lparr>Sku := Val ''NEW1''\<rparr>"
  let ?same = "nan_item\<lparr>UnitPrice := Val (Fin (999 / 100))\<rparr>"
  have cat': "latest_category_of (store [?same]) salsa = (Inr Null, [])"
    by (simp add: latest_category_of_def salsa_def resolved_def)
  have res': "resolve_existing (store [?same]) (latest_product_of salsa Null) =
       (Inr (Val ?same), [FindProductByName (Val ''Acme Salsa'')])"
    by (simp add: resolve_existing_def name_collision_guard_def store_def nan_item_def salsa_def
        latest_product_of_def invoke_def await_def resolved_def)
  have same: "\<not> truthy_obj (ParentRef ?same)" "eq_str (Name ?same) (name salsa)"
    "eq_str (Sku ?same) (p_sku salsa)" "eq_str (Description ?same) (description salsa)"
    "eq_num (UnitPrice ?same) (unit_price salsa)" "eq_num (PurchaseCost ?same) (purchase_cost salsa)"
    "truthy_bool (Active ?same)"
    by (simp_all add: nan_item_def salsa_def)
  from syncProduct_existing [OF cat' res'] same
  have quiet: "syncProduct (store [?same]) salsa = (Inr (), [FindProductByName (Val ''Acme Salsa'')])"
    by simp
  have cat: "latest_category_of (store [?it]) salsa = (Inr Null, [])"
    by (simp add: latest_category_of_def salsa_def resolved_def)
  have res: "resolve_existing (store [?it]) (latest_product_of salsa Null) =
       (Inr (Val ?it), [FindProductByName (Val ''Acme Salsa'')])"
    by (simp add: resolve_existing_def name_collision_guard_def store_def old_salsa_def salsa_def
        latest_product_of_def invoke_def await_def resolved_def)
  have differ: "\<not> eq_str (Description ?it) (description salsa)"
    by (simp add: old_salsa_def salsa_def)
  have upd: "updateProduct (store [?it]) u = Inr (Val (entity u))" for u
    by (simp add: store_def)
  from syncProduct_existing [OF cat res] differ
  have "syncProduct (store [?it]) salsa =
       (map_sum id (\<lambda>_. ())
          (updateProduct (store [?it]) (reactivation ?it (latest_product_of salsa Null))),
        [] @ [FindProductByName (Val ''Acme Salsa'')] @
          [UpdateProduct (reactivation ?it (latest_product_of salsa Null))])"
    by presburger
  with cat res quiet show ?thesis by (simp add: upd)
qed


subsection \<open>The name collision\<close>

lemma await_assoc: "await (await m f) g = await m (\<lambda>x. await (f x) g)"
  by (auto simp: await_def split: prod.splits sum.splits)

lemma reconcile_findProductByName_update [simp]:
  "reconcile (env\<lparr>findProductByName := h\<rparr>) latest = reconcile env latest"
proof
  fix existing
  show "reconcile (env\<lparr>findProductByName := h\<rparr>) latest existing = reconcile env latest existing"
    by (cases existing) (simp_all add: reconcile_def resolveAccountRefs_def promise_all_def rejections_def fulfilments_def)
qed

lemma latest_category_of_findProductByName_update [simp]:
  "latest_category_of (env\<lparr>findProductByName := h\<rparr>) p = latest_category_of env p"
  by (simp add: latest_category_of_def findOrCreateCategoryByName_def cong: if_cong)

lemma after_guard_findProductByName_update [simp]:
  "after_guard (env\<lparr>findProductByName := h\<rparr>) latest = after_guard env latest"
  by (simp add: after_guard_def)

lemma syncProduct_unset:
  assumes "latest_category_of env p = (Inr lc, tc)"
    and "name_collision_guard env (latest_product_of p lc) = (Inr Undefined, tg)"
  shows "syncProduct env p =
           (fst (after_guard env (latest_product_of p lc)),
            tc @ tg @ snd (after_guard env (latest_product_of p lc)))"
  using assms
  by (simp add: syncProduct_def resolve_existing_def await_assoc await_Inr after_guard_def)

lemma syncProduct_collision:
  assumes cat: "latest_category_of env p = (Inr lc, tc)"
    and found: "findProductByName env (name p) = Inr (Val s)"
    and differs: "\<not> eq_str (Sku s) (p_sku p)"
  shows "case updateProduct env (deactivation s) of
           Inl e \<Rightarrow>
             syncProduct env p =
               (Inl e, tc @ [FindProductByName (name p), UpdateProduct (deactivation s)])
         | Inr _ \<Rightarrow>
             syncProduct env p =
               (fst (after_guard env (latest_product_of p lc)),
                tc @ FindProductByName (name p) # UpdateProduct (deactivation s) #
                  snd (after_guard env (latest_product_of p lc)))
             \<and> syncProduct (env\<lparr>findProductByName := \<lambda>_. Inr Null\<rparr>) p =
               (fst (after_guard env (latest_product_of p lc)),
                tc @ FindProductByName (name p) # snd (after_guard env (latest_product_of p lc)))"
proof (cases "updateProduct env (deactivation s)")
  case (Inl e)
  have "name_collision_guard env (latest_product_of p lc) =
          (Inl e, [FindProductByName (name p), UpdateProduct (deactivation s)])"
    using found differs Inl
    by (simp add: name_collision_guard_def latest_product_of_def invoke_def await_def)
  with cat Inl show ?thesis
    by (simp add: syncProduct_def resolve_existing_def await_Inr await_Inl)
next
  case (Inr r)
  have g: "name_collision_guard env (latest_product_of p lc) =
          (Inr Undefined, [FindProductByName (name p), UpdateProduct (deactivation s)])"
    using found differs Inr
    by (simp add: name_collision_guard_def latest_product_of_def invoke_def await_def resolved_def)
  let ?env' = "env\<lparr>findProductByName := \<lambda>_. Inr Null\<rparr>"
  have g': "name_collision_guard ?env' (latest_product_of p lc) =
          (Inr Undefined, [FindProductByName (name p)])"
    by (simp add: name_collision_guard_def latest_product_of_def invoke_def await_def resolved_def)
  have cat': "latest_category_of ?env' p = (Inr lc, tc)"
    using cat by simp
  show ?thesis
    using syncProduct_unset [OF cat g] syncProduct_unset [OF cat' g'] Inr by simp
qed

lemma resolveAccountRefs_calls:
  "snd (resolveAccountRefs env) =
     [FindAccountByName ''Sales of Product Income'', FindAccountByName ''Cost of Goods Sold'',
      FindAccountByName ''Inventory Asset'']"
  by (simp add: resolveAccountRefs_def promise_all_def invoke_def await_def rejected_def
      resolved_def split: list.splits sum.splits)

lemma reconcile_create:
  "\<not> truthy_obj existing \<Longrightarrow>
   reconcile env latest existing =
     (case fst (resolveAccountRefs env) of
        Inl e \<Rightarrow> (Inl e, snd (resolveAccountRefs env))
      | Inr accounts \<Rightarrow>
          (map_sum id (\<lambda>_. ())
             (createProduct env (new_item latest accounts (take 10 (toISOString env)))),
           snd (resolveAccountRefs env) @
             [CreateProduct (new_item latest accounts (take 10 (toISOString env)))]))"
  by (cases existing; cases "resolveAccountRefs env"; cases "fst (resolveAccountRefs env)")
     (auto simp: reconcile_def await_def invoke_def resolved_def split: sum.splits)

lemma after_guard_cases:
  "after_guard env latest =
     (case findProductBySKU env (Sku latest) of
        Inl e \<Rightarrow> (Inl e, [FindProductBySKU (Sku latest)])
      | Inr existing \<Rightarrow>
          (fst (reconcile env latest existing),
           FindProductBySKU (Sku latest) # snd (reconcile env latest existing)))"
  by (simp add: after_guard_def invoke_def await_def split: sum.splits prod.splits)

text \<open>
  C2. When the lookup by name finds an item with another SKU, the engine updates that
  item, with the name \<^verbatim>\<open>_\<close> followed by the item's own SKU and \<^verbatim>\<open>Active: false\<close>; this
  update is the call right after the lookup by name, preceded by category calls only and
  made whatever the answers to later calls are. When the update fails the run fails with
  it. Otherwise the product is reconciled as in a run whose lookup by name found nothing
  (the same outcome and the same further calls): the lookup by SKU comes next; an item it
  finds is updated with the target's fields when it differs or is inactive, and left
  alone otherwise; when it finds none, the three ledger accounts are looked up and the
  new item is created, active, under the product's name and SKU.
\<close>

theorem syncProduct_name_collision:
  assumes cat: "latest_category_of env p = (Inr lc, tc)"
    and found: "findProductByName env (name p) = Inr (Val s)"
    and differs: "\<not> eq_str (Sku s) (p_sku p)"
  shows "\<exists>rest.
           snd (syncProduct env p) =
             tc @ FindProductByName (name p) # UpdateProduct (deactivation s) # rest
         \<and> set tc \<subseteq> {FindCategoryByName (category p), CreateCategory (category p)}
         \<and> Name (entity (deactivation s)) = Val (''_'' @ to_string (Sku s))
         \<and> Active (entity (deactivation s)) = Val False
         \<and> (case updateProduct env (deactivation s) of
              Inl e \<Rightarrow> rest = [] \<and> fst (syncProduct env p) = Inl e
            | Inr _ \<Rightarrow>
                syncProduct (env\<lparr>findProductByName := \<lambda>_. Inr Null\<rparr>) p =
                  (fst (syncProduct env p), tc @ FindProductByName (name p) # rest)
                \<and> (case findProductBySKU env (p_sku p) of
                     Inl e \<Rightarrow>
                       rest = [FindProductBySKU (p_sku p)] \<and> fst (syncProduct env p) = Inl e
                   | Inr (Val ex) \<Rightarrow>
                       (if didChangeProductContent ex (latest_product_of p lc)
                           \<or> \<not> truthy_bool (Active ex)
                        then rest = [FindProductBySKU (p_sku p),
                                     UpdateProduct (reactivation ex (latest_product_of p lc))]
                           \<and> fst (syncProduct env p) =
                               map_sum id (\<lambda>_. ())
                                 (updateProduct env (reactivation ex (latest_product_of p lc)))
                        else rest = [FindProductBySKU (p_sku p)]
                           \<and> fst (syncProduct env p) = Inr ())
                   | Inr _ \<Rightarrow>
                       (case fst (resolveAccountRefs env) of
                          Inl e \<Rightarrow>
                            rest = [FindProductBySKU (p_sku p),
                                    FindAccountByName ''Sales of Product Income'',
                                    FindAccountByName ''Cost of Goods Sold'',
                                    FindAccountByName ''Inventory Asset'']
                            \<and> fst (syncProduct env p) = Inl e
                        | Inr accounts \<Rightarrow>
                            rest = [FindProductBySKU (p_sku p),
                                    FindAccountByName ''Sales of Product Income'',
                                    FindAccountByName ''Cost of Goods Sold'',
                                    FindAccountByName ''Inventory Asset'',
                                    CreateProduct (new_item (latest_product_of p lc) accounts
                                                     (take 10 (toISOString env)))]
                            \<and> fst (syncProduct env p) =
                                map_sum id (\<lambda>_. ())
                                  (createProduct env (new_item (latest_product_of p lc) accounts
                                                        (take 10 (toISOString env))))
                            \<and> Name (new_item (latest_product_of p lc) accounts
                                       (take 10 (toISOString env))) = name p
                            \<and> Sku (new_item (latest_product_of p lc) accounts
                                      (take 10 (toISOString env))) = p_sku p
                            \<and> Active (new_item (latest_product_of p lc) accounts
                                         (take 10 (toISOString env))) = Val True)))"
proof -
  let ?latest = "latest_product_of p lc"
  have tc: "set tc \<subseteq> {FindCategoryByName (category p), CreateCategory (category p)}"
    using latest_category_of_calls [of env p] cat by simp
  have payload: "Name (entity (deactivation s)) = Val (''_'' @ to_string (Sku s))"
    "Active (entity (deactivation s)) = Val False"
    by (simp_all add: deactivation_def)
  have sku: "Sku ?latest = p_sku p"
    by (simp add: latest_product_of_def)
  have created: "Name (new_item ?latest accounts d) = name p"
    "Sku (new_item ?latest accounts d) = p_sku p"
    "Active (new_item ?latest accounts d) = Val True" for accounts d
    by (simp_all add: new_item_def latest_product_of_def)
  show ?thesis
  proof (cases "updateProduct env (deactivation s)")
    case (Inl e)
    with syncProduct_collision [OF cat found differs] tc payload show ?thesis
      by (intro exI [of _ "[]"]) simp
  next
    case (Inr r)
    have ag: "fst (after_guard env ?latest) = fst (syncProduct env p)"
      "snd (syncProduct env p) =
         tc @ FindProductByName (name p) # UpdateProduct (deactivation s) #
           snd (after_guard env ?latest)"
      "syncProduct (env\<lparr>findProductByName := \<lambda>_. Inr Null\<rparr>) p =
         (fst (syncProduct env p), tc @ FindProductByName (name p) # snd (after_guard env ?latest))"
      using syncProduct_collision [OF cat found differs] Inr by simp_all
    have rest: "case findProductBySKU env (p_sku p) of
                     Inl e \<Rightarrow>
                       snd (after_guard env ?latest) = [FindProductBySKU (p_sku p)]
                       \<and> fst (after_guard env ?latest) = Inl e
                   | Inr (Val ex) \<Rightarrow>
                       (if didChangeProductContent ex ?latest \<or> \<not> truthy_bool (Active ex)
                        then snd (after_guard env ?latest) =
                               [FindProductBySKU (p_sku p), UpdateProduct (reactivation ex ?latest)]
                           \<and> fst (after_guard env ?latest) =
                               map_sum id (\<lambda>_. ()) (updateProduct env (reactivation ex ?latest))
                        else snd (after_guard env ?latest) = [FindProductBySKU (p_sku p)]
                           \<and> fst (after_guard env ?latest) = Inr ())
                   | Inr _ \<Rightarrow>
                       (case fst (resolveAccountRefs env) of
                          Inl e \<Rightarrow>
                            snd (after_guard env ?latest) =
                                   [FindProductBySKU (p_sku p),
                                    FindAccountByName ''Sales of Product Income'',
                                    FindAccountByName ''Cost of Goods Sold'',
                                    FindAccountByName ''Inventory Asset'']
                            \<and> fst (after_guard env ?latest) = Inl e
                        | Inr accounts \<Rightarrow>
                            snd (after_guard env ?latest) =
                                   [FindProductBySKU (p_sku p),
                                    FindAccountByName ''Sales of Product Income'',
                                    FindAccountByName ''Cost of Goods Sold'',
                                    FindAccountByName ''Inventory Asset'',
                                    CreateProduct (new_item ?latest accounts (take 10 (toISOString env)))]
                            \<and> fst (after_guard env ?latest) =
                                map_sum id (\<lambda>_. ())
                                  (createProduct env (new_item ?latest accounts
                                                        (take 10 (toISOString env)))))"
      by (auto simp: after_guard_cases sku reconcile_existing reconcile_create
          resolveAccountRefs_calls split: sum.splits nullable.splits)
    show ?thesis
      using tc payload ag rest Inr
      by (intro exI [of _ "snd (after_guard env ?latest)"])
         (auto simp: created split: sum.splits nullable.splits)
  qed
qed

text \<open>
  The example of the specification: the item \<^verbatim>\<open>Acme Salsa\<close> with the SKU \<^verbatim>\<open>OLD1\<close> is renamed
  to \<^verbatim>\<open>_OLD1\<close> and deactivated, then the item \<^verbatim>\<open>Acme Salsa\<close> with the SKU \<^verbatim>\<open>NEW1\<close> is created.
\<close>

theorem syncProduct_name_collision_witness:
  "latest_category_of (store [old_salsa]) salsa = (Inr Null, [])
   \<and> findProductByName (store [old_salsa]) (name salsa) = Inr (Val old_salsa)
   \<and> \<not> eq_str (Sku old_salsa) (p_sku salsa)
   \<and> syncProduct (store [old_salsa]) salsa =
       (Inr (),
        [FindProductByName (Val ''Acme Salsa''),
         UpdateProduct \<lparr>entity = old_salsa\<lparr>Name := Val ''_OLD1'', Active := Val False\<rparr>,
                         sparse = False\<rparr>,
         FindProductBySKU (Val ''NEW1''),
         FindAccountByName ''Sales of Product Income'',
         FindAccountByName ''Cost of Goods Sold'',
         FindAccountByName ''Inventory Asset'',
         CreateProduct (nan_item\<lparr>UnitPrice := Val (Fin (999 / 100))\<rparr>)])
   \<and> syncProduct ((store [old_salsa])\<lparr>findProductByName := \<lambda>_. Inr Null\<rparr>) salsa =
       (Inr (),
        [FindProductByName (Val ''Acme Salsa''),
         FindProductBySKU (Val ''NEW1''),
         FindAccountByName ''Sales of Product Income'',
         FindAccountByName ''Cost of Goods Sold'',
         FindAccountByName ''Inventory Asset'',
         CreateProduct (nan_item\<lparr>UnitPrice := Val (Fin (999 / 100))\<rparr>)])"
proof -
  let ?env = "store [old_salsa]"
  have cat: "latest_category_of ?env salsa = (Inr Null, [])"
    by (simp add: latest_category_of_def salsa_def resolved_def)
  have found: "findProductByName ?env (name salsa) = Inr (Val old_salsa)"
    by (simp add: store_def old_salsa_def salsa_def)
  have differs: "\<not> eq_str (Sku old_salsa) (p_sku salsa)"
    by (simp add: old_salsa_def salsa_def)
  have upd: "updateProduct ?env u = Inr (Val (entity u))" for u
    by (simp add: store_def)
  have crt: "createProduct ?env i = Inr (Val i)" for i
    by (simp add: store_def)
  have d: "deactivation old_salsa =
      \<lparr>entity = old_salsa\<lparr>Name := Val ''_OLD1'', Active := Val False\<rparr>, sparse = False\<rparr>"
    by (simp add: deactivation_def old_salsa_def)
  have n: "name salsa = Val ''Acme Salsa''" "p_sku salsa = Val ''NEW1''"
    by (simp_all add: salsa_def)
  have bysku: "findProductBySKU ?env (Val ''NEW1'') = Inr Null"
    by (simp add: store_def old_salsa_def)
  have accounts: "fst (resolveAccountRefs ?env) =
      Inr \<lparr>income_account_ref =
             Val \<lparr>ref_value = Val ''id of Sales of Product Income'',
                   ref_name = Val ''Sales of Product Income''\<rparr>,
           expense_account_ref =
             Val \<lparr>ref_value = Val ''id of Cost of Goods Sold'', ref_name = Val ''Cost of Goods Sold''\<rparr>,
           asset_account_ref =
             Val \<lparr>ref_value = Val ''id of Inventory Asset'', ref_name = Val ''Inventory Asset''\<rparr>\<rparr>"
    by (simp add: resolveAccountRefs_def promise_all_def rejections_def fulfilments_def
        add_account_ref_def store_def ledger_def invoke_def await_def resolved_def)
  have item: "new_item (latest_product_of salsa Null)
        \<lparr>income_account_ref =
             Val \<lparr>ref_value = Val ''id of Sales of Product Income'',
                   ref_name = Val ''Sales of Product Income''\<rparr>,
           expense_account_ref =
             Val \<lparr>ref_value = Val ''id of Cost of Goods Sold'', ref_name = Val ''Cost of Goods Sold''\<rparr>,
           asset_account_ref =
             Val \<lparr>ref_value = Val ''id of Inventory Asset'', ref_name = Val ''Inventory Asset''\<rparr>\<rparr>
        (take 10 (toISOString ?env)) = nan_item\<lparr>UnitPrice := Val (Fin (999 / 100))\<rparr>"
    by (simp add: new_item_def latest_product_of_def salsa_def nan_item_def store_def)
  from syncProduct_name_collision [OF cat found differs]
  have "snd (syncProduct ?env salsa) =
          [FindProductByName (Val ''Acme Salsa''),
           UpdateProduct \<lparr>entity = old_salsa\<lparr>Name := Val ''_OLD1'', Active := Val False\<rparr>,
                           sparse = False\<rparr>,
           FindProductBySKU (Val ''NEW1''),
           FindAccountByName ''Sales of Product Income'',
           FindAccountByName ''Cost of Goods Sold'',
           FindAccountByName ''Inventory Asset'',
           CreateProduct (nan_item\<lparr>UnitPrice := Val (Fin (999 / 100))\<rparr>)]
        \<and> fst (syncProduct ?env salsa) = Inr ()
        \<and> syncProduct (?env\<lparr>findProductByName := \<lambda>_. Inr Null\<rparr>) salsa =
            (Inr (),
             [FindProductByName (Val ''Acme Salsa''),
              FindProductBySKU (Val ''NEW1''),
              FindAccountByName ''Sales of Product Income'',
              FindAccountByName ''Cost of Goods Sold'',
              FindAccountByName ''Inventory Asset'',
              CreateProduct (nan_item\<lparr>UnitPrice := Val (Fin (999 / 100))\<rparr>)])"
    by (auto simp: upd crt n bysku accounts item d)
  with cat found differs show ?thesis
    by (simp add: prod_eq_iff)
qed

text \<open>
  C10. The deactivation that the name-collision path sends through \<^verbatim>\<open>updateProduct\<close> is the
  stale item with \<^verbatim>\<open>Name\<close> replaced by \<^verbatim>\<open>_\<close> and the item's own SKU and \<^verbatim>\<open>Active\<close> set to
  \<^verbatim>\<open>false\<close>: its SKU, descriptions, prices, parent and account references and every other
  field are those of the stale item (the request is sent with \<^verbatim>\<open>sparse: false\<close>).
\<close>

theorem syncProduct_deactivation_frame:
  assumes cat: "latest_category_of env p = (Inr lc, tc)"
    and found: "findProductByName env (name p) = Inr (Val s)"
    and differs: "\<not> eq_str (Sku s) (p_sku p)"
  shows "\<exists>u rest.
           snd (syncProduct env p) = tc @ FindProductByName (name p) # UpdateProduct u # rest
         \<and> entity u = s\<lparr>Name := Val (''_'' @ to_string (Sku s)), Active := Val False\<rparr>
         \<and> sparse u = False
         \<and> Sku (entity u) = Sku s
         \<and> Description (entity u) = Description s
         \<and> PurchaseDesc (entity u) = PurchaseDesc s
         \<and> UnitPrice (entity u) = UnitPrice s
         \<and> PurchaseCost (entity u) = PurchaseCost s
         \<and> Taxable (entity u) = Taxable s
         \<and> SubItem (entity u) = SubItem s
         \<and> ParentRef (entity u) = ParentRef s
         \<and> Item_Id (entity u) = Item_Id s
         \<and> TrackQtyOnHand (entity u) = TrackQtyOnHand s
         \<and> QtyOnHand (entity u) = QtyOnHand s
         \<and> InvStartDate (entity u) = InvStartDate s
         \<and> IncomeAccountRef (entity u) = IncomeAccountRef s
         \<and> ExpenseAccountRef (entity u) = ExpenseAccountRef s
         \<and> AssetAccountRef (entity u) = AssetAccountRef s
         \<and> Other (entity u) = Other s"
proof -
  have "\<exists>rest. snd (syncProduct env p) =
          tc @ FindProductByName (name p) # UpdateProduct (deactivation s) # rest"
    using syncProduct_collision [OF cat found differs]
    by (cases "updateProduct env (deactivation s)") auto
  then obtain rest where "snd (syncProduct env p) =
          tc @ FindProductByName (name p) # UpdateProduct (deactivation s) # rest" ..
  then show ?thesis
    by (intro exI [of _ "deactivation s"] exI [of _ rest]) (simp add: deactivation_def)
qed

theorem syncProduct_deactivation_frame_witness:
  "latest_category_of (store [old_salsa]) salsa = (Inr Null, [])
   \<and> findProductByName (store [old_salsa]) (name salsa) = Inr (Val old_salsa)
   \<and> \<not> eq_str (Sku old_salsa) (p_sku salsa)
   \<and> (\<exists>u rest. snd (syncProduct (store [old_salsa]) salsa) =
          FindProductByName (Val ''Acme Salsa'') # UpdateProduct u # rest
        \<and> Name (entity u) = Val ''_OLD1'' \<and> Active (entity u) = Val False
        \<and> Sku (entity u) = Val ''OLD1'' \<and> UnitPrice (entity u) = Val (Fin 8)
        \<and> IncomeAccountRef (entity u) =
            Val \<lparr>ref_value = Val ''79'', ref_name = Val ''Sales of Product Income''\<rparr>
        \<and> Other (entity u) = [(''SyncToken'', ''3''), (''Type'', ''Inventory'')])"
proof -
  have cat: "latest_category_of (store [old_salsa]) salsa = (Inr Null, [])"
    by (simp add: latest_category_of_def salsa_def resolved_def)
  have found: "findProductByName (store [old_salsa]) (name salsa) = Inr (Val old_salsa)"
    by (simp add: store_def old_salsa_def salsa_def)
  have differs: "\<not> eq_str (Sku old_salsa) (p_sku salsa)"
    by (simp add: old_salsa_def salsa_def)
  from syncProduct_deactivation_frame [OF cat found differs]
  obtain u rest where
    "snd (syncProduct (store [old_salsa]) salsa) =
       [] @ FindProductByName (name salsa) # UpdateProduct u # rest"
    "entity u = old_salsa\<lparr>Name := Val (''_'' @ to_string (Sku old_salsa)), Active := Val False\<rparr>"
    by blast
  then have "snd (syncProduct (store [old_salsa]) salsa) =
          FindProductByName (Val ''Acme Salsa'') # UpdateProduct u # rest
        \<and> Name (entity u) = Val ''_OLD1'' \<and> Active (entity u) = Val False
        \<and> Sku (entity u) = Val ''OLD1'' \<and> UnitPrice (entity u) = Val (Fin 8)
        \<and> IncomeAccountRef (entity u) =
            Val \<lparr>ref_value = Val ''79'', ref_name = Val ''Sales of Product Income''\<rparr>
        \<and> Other (entity u) = [(''SyncToken'', ''3''), (''Type'', ''Inventory'')]"
    by (simp add: old_salsa_def salsa_def)
  with cat found differs show ?thesis by blast
qed

subsection \<open>Missing ledger accounts\<close>

lemma reduce_accounts_falsy:
  "\<exists>r \<in> set rs. \<not> truthy_obj r \<Longrightarrow> reduce_accounts accounts rs = Inl TypeError"
proof (induction rs arbitrary: accounts)
  case Nil
  then show ?case by simp
next
  case (Cons r rs)
  then show ?case by (cases r) auto
qed

text \<open>
  Whenever the three account lookups resolve and one of them resolves with \<^verbatim>\<open>null\<close>,
  \<^verbatim>\<open>resolveAccountRefs\<close> is rejected with a \<^verbatim>\<open>TypeError\<close>, after the three lookups.
\<close>

lemma resolveAccountRefs_null:
  assumes "findAccountByName env ''Sales of Product Income'' = Inr a"
    and "findAccountByName env ''Cost of Goods Sold'' = Inr b"
    and "findAccountByName env ''Inventory Asset'' = Inr c"
    and "\<not> truthy_obj a \<or> \<not> truthy_obj b \<or> \<not> truthy_obj c"
  shows "resolveAccountRefs env =
           (Inl TypeError,
            [FindAccountByName ''Sales of Product Income'', FindAccountByName ''Cost of Goods Sold'',
             FindAccountByName ''Inventory Asset''])"
proof -
  have "reduce_accounts acc0 [a, b, c] = Inl TypeError" for acc0
    using assms(4) by (intro reduce_accounts_falsy) auto
  then show ?thesis
    using assms(1-3)
    by (simp add: resolveAccountRefs_def promise_all_def rejections_def fulfilments_def invoke_def await_def rejected_def)
qed

text \<open>
  C6. The claim promises that a ledger account the lookup does not find (\<^verbatim>\<open>null\<close>) leaves
  an incomplete set of references on the created item and no failure. The reduction in
  \<^verbatim>\<open>resolveAccountRefs\<close> reads \<^verbatim>\<open>r.Name\<close> of every result, so a \<^verbatim>\<open>null\<close> result throws: with
  the account \<^verbatim>\<open>Cost of Goods Sold\<close> missing, the run for a new product is rejected with a
  \<^verbatim>\<open>TypeError\<close> after the three lookups, and \<^verbatim>\<open>createProduct\<close> is never called.
\<close>

theorem syncProduct_missing_account_TypeError:
  "syncProduct ((store [])\<lparr>findAccountByName := ledger_without_cogs\<rparr>) salsa =
     (Inl TypeError,
      [FindProductByName (Val ''Acme Salsa''), FindProductBySKU (Val ''NEW1''),
       FindAccountByName ''Sales of Product Income'', FindAccountByName ''Cost of Goods Sold'',
       FindAccountByName ''Inventory Asset''])"
  by (simp add: syncProduct_def latest_category_of_def resolve_existing_def
      name_collision_guard_def reconcile_def resolveAccountRefs_def promise_all_def rejections_def fulfilments_def
      latest_product_of_def store_def ledger_def ledger_without_cogs_def salsa_def
      invoke_def await_def resolved_def rejected_def)

subsection \<open>A second run\<close>

lemma eq_str_refl: "eq_str x x"
  by (cases x) simp_all

lemma eq_num_refl: "x \<noteq> Val NaN \<Longrightarrow> eq_num x x"
  by (cases x) simp_all

lemma didChangeProductContent_same:
  assumes "ParentRef it = ParentRef latest" "Name it = Name latest" "Sku it = Sku latest"
    and "Description it = Description latest" "UnitPrice it = UnitPrice latest"
    and "PurchaseCost it = PurchaseCost latest"
    and "UnitPrice latest \<noteq> Val NaN" "PurchaseCost latest \<noteq> Val NaN"
  shows "\<not> didChangeProductContent it latest"
  using assms
  by (cases "ParentRef latest")
     (simp_all add: didChangeProductContent_def eq_str_refl eq_num_refl)

lemma item_left_settled:
  assumes "UnitPrice latest \<noteq> Val NaN" "PurchaseCost latest \<noteq> Val NaN"
  shows "\<not> didChangeProductContent (item_left env latest existing accounts) latest
         \<and> truthy_bool (Active (item_left env latest existing accounts))
         \<and> eq_str (Sku (item_left env latest existing accounts)) (Sku latest)"
proof (cases existing)
  case (Val ex)
  show ?thesis
  proof (cases "didChangeProductContent ex latest \<or> \<not> truthy_bool (Active ex)")
    case True
    then have il: "item_left env latest existing accounts = entity (reactivation ex latest)"
      using Val by (simp add: item_left_def)
    have "\<not> didChangeProductContent (entity (reactivation ex latest)) latest"
      using assms by (intro didChangeProductContent_same) (simp_all add: reactivation_def)
    then show ?thesis
      by (simp add: il) (simp add: reactivation_def eq_str_refl)
  next
    case False
    then have "item_left env latest existing accounts = ex"
      using Val by (simp add: item_left_def)
    with False show ?thesis
      by (auto simp: didChangeProductContent_def)
  qed
next
  case Undefined
  then have il: "item_left env latest existing accounts =
      new_item latest accounts (take 10 (toISOString env))"
    by (simp add: item_left_def)
  have "\<not> didChangeProductContent (new_item latest accounts (take 10 (toISOString env))) latest"
    using assms by (intro didChangeProductContent_same) (simp_all add: new_item_def)
  then show ?thesis
    by (simp add: il) (simp add: new_item_def eq_str_refl)
next
  case Null
  then have il: "item_left env latest existing accounts =
      new_item latest accounts (take 10 (toISOString env))"
    by (simp add: item_left_def)
  have "\<not> didChangeProductContent (new_item latest accounts (take 10 (toISOString env))) latest"
    using assms by (intro didChangeProductContent_same) (simp_all add: new_item_def)
  then show ?thesis
    by (simp add: il) (simp add: new_item_def eq_str_refl)
qed

text \<open>
  For a product whose prices are not \<^verbatim>\<open>NaN\<close>, a second run writes nothing: when the
  category is found again without a write and the lookup by name answers with the item
  the first run left, the second run makes the category calls and the lookup by name,
  and nothing else.
\<close>

lemma syncProduct_second_run_quiet:
  assumes prices: "unit_price p \<noteq> Val NaN" "purchase_cost p \<noteq> Val NaN"
    and cat2: "latest_category_of env2 p = (Inr lc, tc2)" "filter is_write tc2 = []"
    and item2: "findProductByName env2 (name p) =
                  Inr (Val (item_left env1 (latest_product_of p lc) existing1 accounts1))"
  shows "syncProduct env2 p = (Inr (), tc2 @ [FindProductByName (name p)])
         \<and> filter is_write (snd (syncProduct env2 p)) = []"
proof -
  let ?latest = "latest_product_of p lc"
  let ?it = "item_left env1 ?latest existing1 accounts1"
  have "UnitPrice ?latest \<noteq> Val NaN" "PurchaseCost ?latest \<noteq> Val NaN"
    using prices by (simp_all add: latest_product_of_def)
  from item_left_settled [OF this, of env1 existing1 accounts1]
  have same: "\<not> didChangeProductContent ?it ?latest" and active: "truthy_bool (Active ?it)"
    and sku: "eq_str (Sku ?it) (Sku ?latest)"
    by simp_all
  have n: "Name ?latest = name p"
    by (simp add: latest_product_of_def)
  have "resolve_existing env2 ?latest = (Inr (Val ?it), [FindProductByName (name p)])"
    using item2 sku
    by (simp add: resolve_existing_def name_collision_guard_def n invoke_def await_def
        resolved_def)
  from syncProduct_steps [OF cat2(1) this] same active
  have "syncProduct env2 p = (Inr (), tc2 @ [FindProductByName (name p)])"
    by (simp add: reconcile_existing)
  with cat2(2) show ?thesis by simp
qed

text \<open>
  With a price that is \<^verbatim>\<open>NaN\<close> the content always counts as changed, whatever the store
  holds: every run that resolves an existing item sends an update.
\<close>

lemma didChangeProductContent_NaN:
  "unit_price p = Val NaN \<or> purchase_cost p = Val NaN \<Longrightarrow>
   didChangeProductContent ex (latest_product_of p lc)"
  by (cases "UnitPrice ex"; cases "PurchaseCost ex")
     (auto simp: didChangeProductContent_def latest_product_of_def)

lemma syncProduct_NaN_updates:
  assumes "unit_price p = Val NaN \<or> purchase_cost p = Val NaN"
    and "latest_category_of env p = (Inr lc, tc)"
    and "resolve_existing env (latest_product_of p lc) = (Inr (Val ex), tr)"
  shows "snd (syncProduct env p) =
           tc @ tr @ [UpdateProduct (reactivation ex (latest_product_of p lc))]"
  using didChangeProductContent_NaN [OF assms(1)]
  by (simp add: syncProduct_steps [OF assms(2,3)] reconcile_existing)

text \<open>
  C3. The second of two runs must write nothing. For a product whose unit price is
  \<^verbatim>\<open>NaN\<close> it does write: the first run, against an empty store, creates the item; the
  second run, against the store that holds exactly this item, finds it by name with the
  same SKU, compares \<^verbatim>\<open>NaN == NaN\<close>, which is false, takes the content for changed and
  sends an update whose entity is the very item the store holds.
\<close>

theorem syncProduct_second_run_writes_NaN:
  "syncProduct (store []) nan_salsa =
     (Inr (),
      [FindProductByName (Val ''Acme Salsa''), FindProductBySKU (Val ''NEW1''),
       FindAccountByName ''Sales of Product Income'', FindAccountByName ''Cost of Goods Sold'',
       FindAccountByName ''Inventory Asset'', CreateProduct nan_item])
   \<and> syncProduct (store [nan_item]) nan_salsa =
     (Inr (),
      [FindProductByName (Val ''Acme Salsa''),
       UpdateProduct \<lparr>entity = nan_item, sparse = False\<rparr>])"
  by (simp add: syncProduct_def latest_category_of_def resolve_existing_def
      name_collision_guard_def reconcile_def resolveAccountRefs_def promise_all_def rejections_def fulfilments_def add_account_ref_def
      didChangeProductContent_def reactivation_def
      latest_product_of_def new_item_def store_def ledger_def salsa_def nan_salsa_def
      nan_item_def invoke_def await_def resolved_def)


end
